theory Spec2Isabelle
  imports Main
begin

section \<open>Data model of the UNO server (server part of src/public/game.js)\<close>

text \<open>
  The server keeps all of its state in JavaScript objects: a registry \<open>rooms\<close> (a Map
  from room code to room object), one room object per game, and one player object per
  seat.  Cards are objects with the fields \<open>color\<close>, \<open>value\<close> and \<open>id\<close>; the fields
  \<open>value\<close> and \<open>id\<close> are written \<open>cvalue\<close> and \<open>cid\<close> here, the player's \<open>id\<close> (the
  socket id) is \<open>pid\<close>.  Strings are ASCII strings.
\<close>

record card =
  color :: string
  cvalue :: string
  cid :: string

text \<open>
  A player object.  \<open>oid\<close> is the identity of the JavaScript object: the callback given
  to \<open>setTimeout\<close> and \<open>room.winner\<close> hold a reference to the object itself, not its
  socket id.  \<open>catchTimeout\<close> is the handle returned by \<open>setTimeout\<close>, or null.
\<close>

record player =
  oid :: nat
  pid :: string
  name :: string
  cards :: "card list"
  isHost :: bool
  saidUno :: bool
  canBeCaught :: bool
  catchTimeout :: "nat option"

text \<open>
  A room object.  Arrays keep the order of the JavaScript arrays: \<open>pop\<close> takes the last
  element, \<open>push\<close> appends, \<open>unshift\<close> prepends; the top of the discard pile is its
  last element.  \<open>winner\<close> is the reference to the winning player object.
\<close>

record room =
  code :: string
  players :: "player list"
  deck :: "card list"
  discardPile :: "card list"
  currentPlayerIndex :: int
  direction :: int
  chosenColor :: "string option"
  gameStarted :: bool
  winner :: "nat option"

text \<open>
  The state of the process.  \<open>roomCode\<close> is the property \<open>socket.roomCode\<close> of every
  socket.  \<open>timers\<close> are the pending timeouts: the handle and the player object its
  callback closes over.  \<open>random\<close> is the sequence of the future results of
  \<open>Math.random\<close>: a draw \<open>Math.floor(Math.random() * k)\<close> is \<open>random 0 mod k\<close>, so
  that every value below \<open>k\<close> can come out; \<open>uuid\<close> is the sequence of the future
  results of \<open>uuidv4()\<close>.
\<close>

record server =
  rooms :: "string \<rightharpoonup> room"
  roomCode :: "string \<rightharpoonup> string"
  timers :: "nat \<rightharpoonup> nat"
  nextTimer :: nat
  nextOid :: nat
  random :: "nat \<Rightarrow> nat"
  uuid :: "nat \<Rightarrow> string"

text \<open>
  What a handler can run into beyond its own early returns: a \<open>TypeError\<close> thrown
  by a property access on \<open>undefined\<close> (nothing catches it: the process ends), and
  \<open>UndefinedCard\<close>, the value \<open>undefined\<close> stored into a pile of cards, which the
  card lists of this model cannot hold.
\<close>

datatype fault = TypeError | UndefinedCard

text \<open>The reasons of the \<open>error\<close> events, in the order of the source.\<close>

datatype reason =
    RoomNotFound | GameInProgress | RoomFull | OnlyHost | NeedTwoPlayers
  | NotYourTurn | CardNotFound | InvalidCard
  | PlayerNotFound | CantCatchYourself | TooLate

text \<open>
  The events a handler emits, with the fields the properties below speak of.  The
  snapshots (\<open>playerList\<close>, \<open>gameStarted\<close>, \<open>gameState\<close>, \<open>cardsDrawn\<close>) are
  computed from the room and carry no state of their own.
\<close>

datatype dest = ToSocket string | ToRoom string

datatype event =
    ErrorEv reason
  | RoomCreated string
  | RoomJoined string
  | PlayerList
  | GameStarted
  | GameState
  | GameOver string
  | UnoForgotten string
  | UnoSafe string
  | UnoSaid string
  | UnoCaught string string nat
  | CardsDrawn
  | CardDrawn bool
  | PlayerLeft string
  | GameCancelled

type_synonym emit = "dest \<times> event"

section \<open>JavaScript primitives\<close>

text \<open>\<open>a % b\<close> on integers: the remainder has the sign of the dividend.  (\<open>b = 0\<close>
  gives NaN in JavaScript; no call below has a zero divisor.)\<close>

definition jsRem :: "int \<Rightarrow> int \<Rightarrow> int" where
  "jsRem a b = (if a < 0 then - ((- a) mod \<bar>b\<bar>) else a mod \<bar>b\<bar>)"

text \<open>\<open>xs.findIndex(P)\<close>: the first index whose element satisfies \<open>P\<close>, or -1.\<close>

fun findIndex :: "('a \<Rightarrow> bool) \<Rightarrow> 'a list \<Rightarrow> int" where
  "findIndex P [] = - 1"
| "findIndex P (x # xs) =
     (if P x then 0
      else (let r = findIndex P xs in if r = - 1 then - 1 else r + 1))"

text \<open>\<open>xs[i]\<close>: \<open>undefined\<close> (here \<open>None\<close>) outside the array.\<close>

definition at :: "'a list \<Rightarrow> int \<Rightarrow> 'a option" where
  "at xs i = (if 0 \<le> i \<and> i < int (length xs) then Some (xs ! nat i) else None)"

text \<open>\<open>xs.splice(i, 1)\<close> for an index inside the array.\<close>

definition splice1 :: "nat \<Rightarrow> 'a list \<Rightarrow> 'a list" where
  "splice1 i xs = take i xs @ drop (Suc i) xs"

text \<open>\<open>x || null\<close> on a string or null: the empty string is falsy.\<close>

definition orNull :: "string option \<Rightarrow> string option" where
  "orNull x = (case x of None \<Rightarrow> None | Some c \<Rightarrow> if c = [] then None else Some c)"

text \<open>The rest of the random sequence after one draw.\<close>

definition advance :: "(nat \<Rightarrow> 'a) \<Rightarrow> (nat \<Rightarrow> 'a)" where
  "advance g = (\<lambda>i. g (Suc i))"

section \<open>Deck\<close>

text \<open>
  \<open>shuffleDeck\<close>: Fisher-Yates on a copy, \<open>i\<close> from the last index down to 1, swapping
  with \<open>j = Math.floor(Math.random() * (i + 1))\<close>.
\<close>

fun shuffleLoop :: "nat \<Rightarrow> 'a list \<Rightarrow> (nat \<Rightarrow> nat) \<Rightarrow> 'a list \<times> (nat \<Rightarrow> nat)" where
  "shuffleLoop 0 shuffled g = (shuffled, g)"
| "shuffleLoop (Suc i) shuffled g =
     (let j = g 0 mod (Suc i + 1)
      in shuffleLoop i (shuffled[Suc i := shuffled ! j, j := shuffled ! Suc i]) (advance g))"

definition shuffleDeck :: "'a list \<Rightarrow> (nat \<Rightarrow> nat) \<Rightarrow> 'a list \<times> (nat \<Rightarrow> nat)" where
  "shuffleDeck deck' g = shuffleLoop (length deck' - 1) deck' g"

text \<open>
  \<open>drawCards(room, count)\<close>.  When the deck is empty the discard pile without its top
  card is shuffled into the deck.  With an empty discard pile \<open>pop\<close> returns
  \<open>undefined\<close>, which becomes the only element of the discard pile: \<open>UndefinedCard\<close>.
  The result is the cards drawn, the room and the rest of the random sequence.
\<close>

fun drawLoop :: "nat \<Rightarrow> card list \<Rightarrow> room \<Rightarrow> (nat \<Rightarrow> nat)
    \<Rightarrow> fault + (card list \<times> room \<times> (nat \<Rightarrow> nat))" where
  "drawLoop 0 cs r g = Inr (cs, r, g)"
| "drawLoop (Suc k) cs r g =
     (if deck r = [] then
        (if discardPile r = [] then Inl UndefinedCard
         else
           (let topc = last (discardPile r);
                (d, g') = shuffleDeck (butlast (discardPile r)) g;
                r' = r\<lparr>deck := d, discardPile := [topc]\<rparr>
            in if deck r' \<noteq> []
               then drawLoop k (cs @ [last (deck r')]) (r'\<lparr>deck := butlast (deck r')\<rparr>) g'
               else drawLoop k cs r' g'))
      else drawLoop k (cs @ [last (deck r)]) (r\<lparr>deck := butlast (deck r)\<rparr>) g)"

definition drawCards :: "room \<Rightarrow> nat \<Rightarrow> (nat \<Rightarrow> nat)
    \<Rightarrow> fault + (card list \<times> room \<times> (nat \<Rightarrow> nat))" where
  "drawCards r count g = drawLoop count [] r g"

section \<open>Rules and turn order\<close>

text \<open>The top of the discard pile, \<open>room.discardPile[room.discardPile.length - 1]\<close>.\<close>

definition topCard :: "room \<Rightarrow> card option" where
  "topCard r = (if discardPile r = [] then None else Some (last (discardPile r)))"

text \<open>
  \<open>canPlayCard(card, topCard, chosenColor)\<close>.  Reading \<open>topCard.color\<close> or
  \<open>topCard.value\<close> of an undefined top card throws.
\<close>

definition canPlayCard :: "card \<Rightarrow> card option \<Rightarrow> string option \<Rightarrow> fault + bool" where
  "canPlayCard c topc chosen =
     (if color c = ''wild'' then Inr True
      else (case orNull chosen of
          Some col \<Rightarrow>
            (if color c = col then Inr True
             else (case topc of None \<Rightarrow> Inl TypeError
                   | Some t \<Rightarrow> Inr (cvalue c = cvalue t)))
        | None \<Rightarrow>
            (case topc of None \<Rightarrow> Inl TypeError
             | Some t \<Rightarrow>
                 if color c = color t then Inr True else Inr (cvalue c = cvalue t))))"

text \<open>\<open>getNextPlayer(room)\<close>.  Every call is made with at least one player in the room.\<close>

definition getNextPlayer :: "room \<Rightarrow> int" where
  "getNextPlayer r =
     (let playerCount = int (length (players r))
      in jsRem (currentPlayerIndex r + direction r + playerCount) playerCount)"

text \<open>\<open>generateRoomCode()\<close>: six characters drawn from \<open>chars\<close>.\<close>

definition chars :: string where
  "chars = ''ABCDEFGHIJKLMNOPQRSTUVWXYZ0123456789''"

fun codeLoop :: "nat \<Rightarrow> string \<Rightarrow> (nat \<Rightarrow> nat) \<Rightarrow> string \<times> (nat \<Rightarrow> nat)" where
  "codeLoop 0 code' g = (code', g)"
| "codeLoop (Suc k) code' g =
     codeLoop k (code' @ [chars ! (g 0 mod length chars)]) (advance g)"

definition generateRoomCode :: "(nat \<Rightarrow> nat) \<Rightarrow> string \<times> (nat \<Rightarrow> nat)" where
  "generateRoomCode g = codeLoop 6 [] g"

section \<open>Creating and joining a room\<close>

text \<open>The player object of the object literals in \<open>createRoom\<close> and \<open>joinRoom\<close>.\<close>

definition newPlayer :: "nat \<Rightarrow> string \<Rightarrow> string \<Rightarrow> bool \<Rightarrow> player" where
  "newPlayer obj sid playerName host =
     \<lparr>oid = obj, pid = sid, name = playerName, cards = [], isHost = host,
      saidUno = False, canBeCaught = False, catchTimeout = None\<rparr>"

text \<open>
  The \<open>createRoom\<close> handler of the socket \<open>sid\<close>.  The generated code is stored with
  \<open>rooms.set\<close>, which replaces a room already stored under that code.
\<close>

definition createRoom :: "server \<Rightarrow> string \<Rightarrow> string \<Rightarrow> emit list \<times> server" where
  "createRoom s sid playerName =
     (let (rc, g) = generateRoomCode (random s);
          r = \<lparr>code = rc, players = [newPlayer (nextOid s) sid playerName True],
               deck = [], discardPile = [], currentPlayerIndex = 0, direction = 1,
               chosenColor = None, gameStarted = False, winner = None\<rparr>
      in ([(ToSocket sid, RoomCreated rc), (ToRoom rc, PlayerList)],
          s\<lparr>rooms := (rooms s)(rc \<mapsto> r),
            roomCode := (roomCode s)(sid \<mapsto> rc),
            nextOid := Suc (nextOid s),
            random := g\<rparr>))"

text \<open>\<open>toUpperCase\<close> on an ASCII string.\<close>

definition upperChar :: "char \<Rightarrow> char" where
  "upperChar c =
     (case map_of (zip ''abcdefghijklmnopqrstuvwxyz'' ''ABCDEFGHIJKLMNOPQRSTUVWXYZ'') c of
        Some u \<Rightarrow> u
      | None \<Rightarrow> c)"

definition toUpperCase :: "string \<Rightarrow> string" where
  "toUpperCase str = map upperChar str"

text \<open>The \<open>joinRoom\<close> handler.\<close>

definition joinRoom :: "server \<Rightarrow> string \<Rightarrow> string \<Rightarrow> string \<Rightarrow> emit list \<times> server" where
  "joinRoom s sid code' playerName =
     (let rc = toUpperCase code'
      in case rooms s rc of
           None \<Rightarrow> ([(ToSocket sid, ErrorEv RoomNotFound)], s)
         | Some r \<Rightarrow>
             if gameStarted r then ([(ToSocket sid, ErrorEv GameInProgress)], s)
             else if length (players r) \<ge> 10 then ([(ToSocket sid, ErrorEv RoomFull)], s)
             else
               (let p = newPlayer (nextOid s) sid playerName False
                in ([(ToSocket sid, RoomJoined rc), (ToRoom rc, PlayerList)],
                    s\<lparr>rooms := (rooms s)(rc \<mapsto> r\<lparr>players := players r @ [p]\<rparr>),
                      roomCode := (roomCode s)(sid \<mapsto> rc),
                      nextOid := Suc (nextOid s)\<rparr>)))"

section \<open>Snapshots\<close>

text \<open>
  The snapshot sent to every player (\<open>gameStarted\<close>, \<open>gameState\<close>): its field
  \<open>currentPlayer\<close> reads \<open>room.players[room.currentPlayerIndex].id\<close>, which throws
  when the index is outside the array.
\<close>

definition sendToPlayers :: "room \<Rightarrow> event \<Rightarrow> fault + emit list" where
  "sendToPlayers r ev =
     (if players r = [] then Inr []
      else (case at (players r) (currentPlayerIndex r) of
              None \<Rightarrow> Inl TypeError
            | Some _ \<Rightarrow> Inr (map (\<lambda>p. (ToSocket (pid p), ev)) (players r))))"

section \<open>Starting the game\<close>

text \<open>\<open>createDeck()\<close>: the 108 cards in the order they are pushed, each with a fresh
  uuid, then shuffled.\<close>

definition COLORS :: "string list" where
  "COLORS = [''red'', ''blue'', ''green'', ''yellow'']"

definition VALUES :: "string list" where
  "VALUES = map (\<lambda>digit. [digit]) ''0123456789'' @ [''skip'', ''reverse'', ''draw2'']"

definition coloredCards :: "string \<Rightarrow> (string \<times> string) list" where
  "coloredCards col = (col, ''0'') # concat (map (\<lambda>v. [(col, v), (col, v)]) (drop 1 VALUES))"

definition wildCards :: "(string \<times> string) list" where
  "wildCards = concat (replicate 4 [(''wild'', ''wild''), (''wild'', ''wild_draw4'')])"

definition createDeck :: "(nat \<Rightarrow> string) \<Rightarrow> (nat \<Rightarrow> nat)
    \<Rightarrow> card list \<times> (nat \<Rightarrow> string) \<times> (nat \<Rightarrow> nat)" where
  "createDeck u g =
     (let pushed = concat (map coloredCards COLORS) @ wildCards;
          deck' = map (\<lambda>(i, cv). \<lparr>color = fst cv, cvalue = snd cv, cid = u i\<rparr>)
                      (enumerate 0 pushed);
          (shuffled, g') = shuffleDeck deck' g
      in (shuffled, (\<lambda>i. u (i + length pushed)), g'))"

text \<open>"Deal 7 cards to each player", in the order of the array.\<close>

fun deal :: "player list \<Rightarrow> room \<Rightarrow> (nat \<Rightarrow> nat)
    \<Rightarrow> fault + (player list \<times> room \<times> (nat \<Rightarrow> nat))" where
  "deal [] r g = Inr ([], r, g)"
| "deal (p # ps) r g =
     (case drawCards r 7 g of
        Inl e \<Rightarrow> Inl e
      | Inr (cs, r', g') \<Rightarrow>
          (case deal ps r' g' of
             Inl e \<Rightarrow> Inl e
           | Inr (ps', r'', g'') \<Rightarrow> Inr (p\<lparr>cards := cs\<rparr> # ps', r'', g'')))"

text \<open>
  "Place first card": the \<open>do ... while\<close> loop pops a card and puts a wild card back
  at the front of the deck.  On an empty deck \<open>firstCard.color\<close> throws; on a deck of
  wild cards only the loop does not end (\<open>None\<close>).
\<close>

partial_function (option) firstCardLoop :: "card list \<Rightarrow> (fault + card \<times> card list) option" where
  "firstCardLoop d =
     (if d = [] then Some (Inl TypeError)
      else if color (last d) = ''wild'' then firstCardLoop (last d # butlast d)
      else Some (Inr (last d, butlast d)))"

text \<open>"Handle special first cards".\<close>

definition specialFirstCard :: "card \<Rightarrow> room \<Rightarrow> (nat \<Rightarrow> nat)
    \<Rightarrow> fault + (room \<times> (nat \<Rightarrow> nat))" where
  "specialFirstCard firstCard r g =
     (if cvalue firstCard = ''skip'' then Inr (r\<lparr>currentPlayerIndex := getNextPlayer r\<rparr>, g)
      else if cvalue firstCard = ''reverse'' then Inr (r\<lparr>direction := direction r * (- 1)\<rparr>, g)
      else if cvalue firstCard = ''draw2'' then
        (case at (players r) 0 of
           None \<Rightarrow> Inl TypeError
         | Some nextPlayer \<Rightarrow>
             (case drawCards r 2 g of
                Inl e \<Rightarrow> Inl e
              | Inr (cs, r1, g') \<Rightarrow>
                  (let r2 = r1\<lparr>players := (players r1)[0 := nextPlayer\<lparr>cards := cards nextPlayer @ cs\<rparr>]\<rparr>
                   in Inr (r2\<lparr>currentPlayerIndex := getNextPlayer r2\<rparr>, g'))))
      else Inr (r, g))"

text \<open>The game set up by \<open>startGame\<close> once the host and the player count are checked.\<close>

definition initGame :: "server \<Rightarrow> string \<Rightarrow> room \<Rightarrow> (fault + (emit list \<times> server)) option" where
  "initGame s rc r =
     (let (d, u, g) = createDeck (uuid s) (random s);
          r1 = r\<lparr>deck := d, gameStarted := True, currentPlayerIndex := 0, direction := 1\<rparr>
      in case deal (players r1) r1 g of
           Inl e \<Rightarrow> Some (Inl e)
         | Inr (ps, r2, g2) \<Rightarrow>
             (case firstCardLoop (deck r2) of
                None \<Rightarrow> None
              | Some (Inl e) \<Rightarrow> Some (Inl e)
              | Some (Inr (firstCard, d')) \<Rightarrow>
                  (let r3 = r2\<lparr>players := ps, deck := d',
                               discardPile := discardPile r2 @ [firstCard]\<rparr>
                   in case specialFirstCard firstCard r3 g2 of
                        Inl e \<Rightarrow> Some (Inl e)
                      | Inr (r4, g4) \<Rightarrow>
                          (case sendToPlayers r4 GameStarted of
                             Inl e \<Rightarrow> Some (Inl e)
                           | Inr evs \<Rightarrow>
                               Some (Inr (evs, s\<lparr>rooms := (rooms s)(rc \<mapsto> r4),
                                                random := g4, uuid := u\<rparr>))))))"

text \<open>The \<open>startGame\<close> handler.\<close>

definition startGame :: "server \<Rightarrow> string \<Rightarrow> (fault + (emit list \<times> server)) option" where
  "startGame s sid =
     (case roomCode s sid of
        None \<Rightarrow> Some (Inr ([], s))
      | Some rc \<Rightarrow>
     (case rooms s rc of
        None \<Rightarrow> Some (Inr ([], s))
      | Some r \<Rightarrow>
          (let idx = findIndex (\<lambda>p. pid p = sid) (players r)
           in if idx = - 1 \<or> \<not> isHost (players r ! nat idx)
              then Some (Inr ([(ToSocket sid, ErrorEv OnlyHost)], s))
              else if length (players r) < 2
              then Some (Inr ([(ToSocket sid, ErrorEv NeedTwoPlayers)], s))
              else initGame s rc r)))"


section \<open>Playing a card\<close>

text \<open>
  The winner branch: every pending catch timeout is cleared with \<open>clearTimeout\<close> and
  the handle set to null.  \<open>canBeCaught\<close> is not assigned.
\<close>

fun clearCatchTimeouts :: "player list \<Rightarrow> (nat \<rightharpoonup> nat) \<Rightarrow> player list \<times> (nat \<rightharpoonup> nat)" where
  "clearCatchTimeouts [] t = ([], t)"
| "clearCatchTimeouts (p # ps) t =
     (case catchTimeout p of
        Some h \<Rightarrow>
          (let (ps', t') = clearCatchTimeouts ps (t(h := None))
           in (p\<lparr>catchTimeout := None\<rparr> # ps', t'))
      | None \<Rightarrow>
          (let (ps', t') = clearCatchTimeouts ps t in (p # ps', t')))"

text \<open>
  The UNO logic of \<open>playCard\<close> for the player at index \<open>i\<close>, whose card has been
  removed: with one card left and no UNO said, the player can be caught and a timeout
  of 5 seconds is started (the handle of an earlier timeout is overwritten, not
  cleared).
\<close>

definition unoLogic :: "string \<Rightarrow> nat \<Rightarrow> room \<Rightarrow> server \<Rightarrow> emit list \<times> room \<times> server" where
  "unoLogic rc i r s =
     (let p = players r ! i
      in if length (cards p) = 1 then
           (if \<not> saidUno p then
              ([(ToRoom rc, UnoForgotten (pid p))],
               r\<lparr>players := (players r)[i := p\<lparr>canBeCaught := True,
                                               catchTimeout := Some (nextTimer s)\<rparr>]\<rparr>,
               s\<lparr>timers := (timers s)(nextTimer s \<mapsto> oid p),
                 nextTimer := Suc (nextTimer s)\<rparr>)
            else ([(ToRoom rc, UnoSafe (pid p))], r, s))
         else ([], r, s))"

text \<open>
  The branches for \<open>draw2\<close> and \<open>wild_draw4\<close>: the index moves to the next player,
  who draws \<open>n\<close> cards.
\<close>

definition forcedDraw :: "nat \<Rightarrow> room \<Rightarrow> (nat \<Rightarrow> nat)
    \<Rightarrow> fault + (emit list \<times> room \<times> (nat \<Rightarrow> nat))" where
  "forcedDraw n r g =
     (let r1 = r\<lparr>currentPlayerIndex := getNextPlayer r\<rparr>
      in case at (players r1) (currentPlayerIndex r1) of
           None \<Rightarrow> Inl TypeError
         | Some nextPlayer \<Rightarrow>
             (case drawCards r1 n g of
                Inl e \<Rightarrow> Inl e
              | Inr (cs, r2, g') \<Rightarrow>
                  Inr ([(ToSocket (pid nextPlayer), CardsDrawn)],
                       r2\<lparr>players := (players r2)[nat (currentPlayerIndex r1) :=
                                          nextPlayer\<lparr>cards := cards nextPlayer @ cs\<rparr>]\<rparr>,
                       g')))"

text \<open>"Handle special cards": the result starts with the flag \<open>skipNext\<close>.\<close>

definition specialCards :: "card \<Rightarrow> room \<Rightarrow> (nat \<Rightarrow> nat)
    \<Rightarrow> fault + (bool \<times> emit list \<times> room \<times> (nat \<Rightarrow> nat))" where
  "specialCards c r g =
     (if cvalue c = ''skip'' then Inr (True, [], r, g)
      else if cvalue c = ''reverse'' then
        (let r' = r\<lparr>direction := direction r * (- 1)\<rparr>
         in Inr (length (players r') = 2, [], r', g))
      else if cvalue c = ''draw2'' then
        (case forcedDraw 2 r g of Inl e \<Rightarrow> Inl e
         | Inr (evs, r', g') \<Rightarrow> Inr (True, evs, r', g'))
      else if cvalue c = ''wild_draw4'' then
        (case forcedDraw 4 r g of Inl e \<Rightarrow> Inl e
         | Inr (evs, r', g') \<Rightarrow> Inr (True, evs, r', g'))
      else Inr (False, [], r, g))"

text \<open>"Move to next player": once, and once more when \<open>skipNext\<close> is set.\<close>

definition moveToNext :: "bool \<Rightarrow> room \<Rightarrow> room" where
  "moveToNext skipNext r =
     (let r' = r\<lparr>currentPlayerIndex := getNextPlayer r\<rparr>
      in if skipNext then r'\<lparr>currentPlayerIndex := getNextPlayer r'\<rparr> else r')"

text \<open>
  What \<open>playCard\<close> does once the card at index \<open>k\<close> of the hand of the player at
  index \<open>i\<close> has passed the checks.
\<close>

definition applyPlay :: "server \<Rightarrow> string \<Rightarrow> room \<Rightarrow> nat \<Rightarrow> nat \<Rightarrow> string option
    \<Rightarrow> fault + (emit list \<times> server)" where
  "applyPlay s rc r i k chosen =
     (let p = players r ! i;
          c = cards p ! k;
          p1 = p\<lparr>cards := splice1 k (cards p)\<rparr>;
          r1 = r\<lparr>players := (players r)[i := p1],
                discardPile := discardPile r @ [c],
                chosenColor := orNull chosen\<rparr>
      in if length (cards p1) = 0 then
           (let (ps, t) = clearCatchTimeouts (players r1) (timers s);
                r2 = r1\<lparr>winner := Some (oid p1), gameStarted := False, players := ps\<rparr>
            in Inr ([(ToRoom rc, GameOver (pid p1))],
                    s\<lparr>rooms := (rooms s)(rc \<mapsto> r2), timers := t\<rparr>))
         else
           (let (evs1, r2, s2) = unoLogic rc i r1 s;
                r3 = r2\<lparr>players := (players r2)[i := (players r2 ! i)\<lparr>saidUno := False\<rparr>]\<rparr>
            in case specialCards c r3 (random s2) of
                 Inl e \<Rightarrow> Inl e
               | Inr (skipNext, evs2, r4, g) \<Rightarrow>
                   (let r5 = moveToNext skipNext r4
                    in case sendToPlayers r5 GameState of
                         Inl e \<Rightarrow> Inl e
                       | Inr evs3 \<Rightarrow>
                           Inr (evs1 @ evs2 @ evs3,
                                s2\<lparr>rooms := (rooms s2)(rc \<mapsto> r5), random := g\<rparr>))))"

text \<open>
  The \<open>playCard\<close> handler of the socket \<open>sid\<close> with the payload \<open>cardId\<close> and
  \<open>chosenColor\<close> (a string or null).  When the socket is not in the room and the
  current index is -1 as well, \<open>player\<close> is undefined and \<open>player.cards\<close> throws.
\<close>

definition playCard :: "server \<Rightarrow> string \<Rightarrow> string \<Rightarrow> string option
    \<Rightarrow> fault + (emit list \<times> server)" where
  "playCard s sid cardId chosen =
     (case roomCode s sid of
        None \<Rightarrow> Inr ([], s)
      | Some rc \<Rightarrow>
     (case rooms s rc of
        None \<Rightarrow> Inr ([], s)
      | Some r \<Rightarrow>
          if \<not> gameStarted r then Inr ([], s)
          else
            (let playerIndex = findIndex (\<lambda>p. pid p = sid) (players r)
             in if playerIndex \<noteq> currentPlayerIndex r
                then Inr ([(ToSocket sid, ErrorEv NotYourTurn)], s)
                else if playerIndex = - 1 then Inl TypeError
                else
                  (let p = players r ! nat playerIndex;
                       cardIndex = findIndex (\<lambda>c. cid c = cardId) (cards p)
                   in if cardIndex = - 1
                      then Inr ([(ToSocket sid, ErrorEv CardNotFound)], s)
                      else
                        (case canPlayCard (cards p ! nat cardIndex) (topCard r) (chosenColor r) of
                           Inl e \<Rightarrow> Inl e
                         | Inr ok \<Rightarrow>
                             if \<not> ok then Inr ([(ToSocket sid, ErrorEv InvalidCard)], s)
                             else applyPlay s rc r (nat playerIndex) (nat cardIndex) chosen)))))"

section \<open>Drawing, saying UNO, catching\<close>

text \<open>
  The \<open>drawCard\<close> handler.  A drawn card that can be played leaves the turn with the
  player; otherwise the turn moves on and the chosen color is reset.
\<close>

definition drawCard :: "server \<Rightarrow> string \<Rightarrow> fault + (emit list \<times> server)" where
  "drawCard s sid =
     (case roomCode s sid of
        None \<Rightarrow> Inr ([], s)
      | Some rc \<Rightarrow>
     (case rooms s rc of
        None \<Rightarrow> Inr ([], s)
      | Some r \<Rightarrow>
          if \<not> gameStarted r then Inr ([], s)
          else
            (let playerIndex = findIndex (\<lambda>p. pid p = sid) (players r)
             in if playerIndex \<noteq> currentPlayerIndex r
                then Inr ([(ToSocket sid, ErrorEv NotYourTurn)], s)
                else if playerIndex = - 1 then Inl TypeError
                else
                  (case drawCards r 1 (random s) of
                     Inl e \<Rightarrow> Inl e
                   | Inr (drawnCards, r1, g) \<Rightarrow>
                       (let i = nat playerIndex;
                            p = players r1 ! i;
                            r2 = r1\<lparr>players := (players r1)[i := p\<lparr>cards := cards p @ drawnCards\<rparr>]\<rparr>
                        in case (if length drawnCards > 0
                                 then canPlayCard (drawnCards ! 0) (topCard r2) (chosenColor r2)
                                 else Inr False) of
                             Inl e \<Rightarrow> Inl e
                           | Inr canPlay \<Rightarrow>
                               if \<not> canPlay then
                                 (let r3 = r2\<lparr>currentPlayerIndex := getNextPlayer r2,
                                              chosenColor := None\<rparr>
                                  in case sendToPlayers r3 GameState of
                                       Inl e \<Rightarrow> Inl e
                                     | Inr evs \<Rightarrow>
                                         Inr ((ToSocket sid, CardDrawn canPlay) # evs,
                                              s\<lparr>rooms := (rooms s)(rc \<mapsto> r3), random := g\<rparr>))
                               else
                                 Inr ([(ToSocket sid, CardDrawn canPlay)],
                                      s\<lparr>rooms := (rooms s)(rc \<mapsto> r2), random := g\<rparr>))))))"

text \<open>
  The \<open>sayUno\<close> handler.  \<open>find\<close> returns the first player with the id of the socket.
\<close>

definition sayUno :: "server \<Rightarrow> string \<Rightarrow> emit list \<times> server" where
  "sayUno s sid =
     (case roomCode s sid of
        None \<Rightarrow> ([], s)
      | Some rc \<Rightarrow>
     (case rooms s rc of
        None \<Rightarrow> ([], s)
      | Some r \<Rightarrow>
          if \<not> gameStarted r then ([], s)
          else
            (let idx = findIndex (\<lambda>p. pid p = sid) (players r)
             in if idx = - 1 then ([], s)
                else
                  (let i = nat idx; p = players r ! i
                   in if length (cards p) \<le> 2 then
                        (let p1 = p\<lparr>saidUno := True\<rparr>;
                             p2 = (if canBeCaught p1
                                   then p1\<lparr>canBeCaught := False, catchTimeout := None\<rparr>
                                   else p1);
                             t = (if canBeCaught p1
                                  then (case catchTimeout p1 of
                                          Some h \<Rightarrow> (timers s)(h := None)
                                        | None \<Rightarrow> timers s)
                                  else timers s)
                         in ([(ToRoom rc, UnoSaid (pid p))],
                             s\<lparr>rooms := (rooms s)(rc \<mapsto> r\<lparr>players := (players r)[i := p2]\<rparr>),
                               timers := t\<rparr>))
                      else ([], s)))))"

text \<open>
  The \<open>catchUno\<close> handler with the payload \<open>targetPlayerId\<close>.  The target is caught
  when its flag \<open>canBeCaught\<close> is set and its hand has exactly one card.
\<close>

definition catchUno :: "server \<Rightarrow> string \<Rightarrow> string \<Rightarrow> fault + (emit list \<times> server)" where
  "catchUno s sid targetPlayerId =
     (case roomCode s sid of
        None \<Rightarrow> Inr ([], s)
      | Some rc \<Rightarrow>
     (case rooms s rc of
        None \<Rightarrow> Inr ([], s)
      | Some r \<Rightarrow>
          if \<not> gameStarted r then Inr ([], s)
          else
            (let catcherIdx = findIndex (\<lambda>p. pid p = sid) (players r);
                 targetIdx = findIndex (\<lambda>p. pid p = targetPlayerId) (players r)
             in if catcherIdx = - 1 \<or> targetIdx = - 1
                then Inr ([(ToSocket sid, ErrorEv PlayerNotFound)], s)
                else
                  (let catcher = players r ! nat catcherIdx;
                       target = players r ! nat targetIdx
                   in if pid catcher = pid target
                      then Inr ([(ToSocket sid, ErrorEv CantCatchYourself)], s)
                      else if canBeCaught target \<and> length (cards target) = 1 then
                        (let t = (case catchTimeout target of
                                    Some h \<Rightarrow> (timers s)(h := None)
                                  | None \<Rightarrow> timers s);
                             target1 = target\<lparr>canBeCaught := False, catchTimeout := None\<rparr>
                         in case drawCards r 2 (random s) of
                              Inl e \<Rightarrow> Inl e
                            | Inr (penaltyCards, r1, g) \<Rightarrow>
                                (let r2 = r1\<lparr>players := (players r1)[nat targetIdx :=
                                             target1\<lparr>cards := cards target1 @ penaltyCards\<rparr>]\<rparr>
                                 in case sendToPlayers r2 GameState of
                                      Inl e \<Rightarrow> Inl e
                                    | Inr evs \<Rightarrow>
                                        Inr ([(ToRoom rc, UnoCaught (pid catcher) (pid target) 2),
                                              (ToSocket (pid target), CardsDrawn)] @ evs,
                                             s\<lparr>rooms := (rooms s)(rc \<mapsto> r2),
                                               timers := t, random := g\<rparr>)))
                      else Inr ([(ToSocket sid, ErrorEv TooLate)], s)))))"

section \<open>Leaving, and the timeout\<close>

text \<open>
  The \<open>disconnect\<close> handler.  The player is removed from the array; the room is
  deleted when nobody is left.  Otherwise the first player becomes host if the host
  left, and in a started game an index beyond the array is set to 0 and a room with
  fewer than two players is stopped.  No timeout is cleared here.
\<close>

definition disconnect :: "server \<Rightarrow> string \<Rightarrow> emit list \<times> server" where
  "disconnect s sid =
     (case roomCode s sid of
        None \<Rightarrow> ([], s)
      | Some rc \<Rightarrow>
          if rc = [] then ([], s)
          else
     (case rooms s rc of
        None \<Rightarrow> ([], s)
      | Some r \<Rightarrow>
          (let playerIndex = findIndex (\<lambda>p. pid p = sid) (players r)
           in if playerIndex = - 1 then ([], s)
              else
                (let p = players r ! nat playerIndex;
                     r1 = r\<lparr>players := splice1 (nat playerIndex) (players r)\<rparr>
                 in if length (players r1) = 0 then ([], s\<lparr>rooms := (rooms s)(rc := None)\<rparr>)
                    else
                      (let r2 = (if isHost p \<and> length (players r1) > 0
                                 then r1\<lparr>players := (players r1)[0 := (players r1 ! 0)\<lparr>isHost := True\<rparr>]\<rparr>
                                 else r1);
                           r3 = (if gameStarted r2
                                 then (if currentPlayerIndex r2 \<ge> int (length (players r2))
                                       then r2\<lparr>currentPlayerIndex := 0\<rparr> else r2)
                                 else r2)
                       in if gameStarted r3 \<and> length (players r3) < 2
                          then ([(ToRoom rc, PlayerLeft (pid p)), (ToRoom rc, GameCancelled)],
                                s\<lparr>rooms := (rooms s)(rc \<mapsto> r3\<lparr>gameStarted := False\<rparr>)\<rparr>)
                          else ([(ToRoom rc, PlayerLeft (pid p))],
                                s\<lparr>rooms := (rooms s)(rc \<mapsto> r3)\<rparr>))))))"

text \<open>
  The callback of the timeout with handle \<open>h\<close>, run by the event loop 5 seconds after
  \<open>setTimeout\<close> unless the timeout was cleared: it resets the flag and the handle of
  the player object it closes over.  A player object that is in no room of the
  registry any more is not part of the state.
\<close>

definition timeoutCallback :: "nat \<Rightarrow> player \<Rightarrow> player" where
  "timeoutCallback obj p =
     (if oid p = obj then p\<lparr>canBeCaught := False, catchTimeout := None\<rparr> else p)"

definition fireTimeout :: "server \<Rightarrow> nat \<Rightarrow> server" where
  "fireTimeout s h =
     (case timers s h of
        None \<Rightarrow> s
      | Some obj \<Rightarrow>
          s\<lparr>timers := (timers s)(h := None),
            rooms := (\<lambda>rc. map_option
                        (\<lambda>r. r\<lparr>players := map (timeoutCallback obj) (players r)\<rparr>)
                        (rooms s rc))\<rparr>)"

section \<open>Concrete rooms\<close>

text \<open>
  Small rooms on which the handlers are run below: \<open>seat\<close> is a player object with a
  hand, \<open>seats\<close> a started room with direction 1, no chosen color and the first
  player as host, \<open>serving\<close> a
  process whose registry holds this one room, every player's socket being in it.
\<close>

definition mkCard :: "string \<Rightarrow> string \<Rightarrow> string \<Rightarrow> card" where
  "mkCard col v i = \<lparr>color = col, cvalue = v, cid = i\<rparr>"

definition seat :: "nat \<Rightarrow> string \<Rightarrow> card list \<Rightarrow> player" where
  "seat obj sid cs = (newPlayer obj sid sid False)\<lparr>cards := cs\<rparr>"

definition seats :: "player list \<Rightarrow> card list \<Rightarrow> card list \<Rightarrow> int \<Rightarrow> room" where
  "seats ps d dp i =
     \<lparr>code = ''ROOM01'',
      players = (case ps of [] \<Rightarrow> [] | p # qs \<Rightarrow> p\<lparr>isHost := True\<rparr> # qs),
      deck = d, discardPile = dp,
      currentPlayerIndex = i, direction = 1, chosenColor = None,
      gameStarted = True, winner = None\<rparr>"

definition serving :: "room \<Rightarrow> (nat \<rightharpoonup> nat) \<Rightarrow> server" where
  "serving r t =
     \<lparr>rooms = [code r \<mapsto> r],
      roomCode = map_of (map (\<lambda>p. (pid p, code r)) (players r)),
      timers = t, nextTimer = 10, nextOid = 100,
      random = (\<lambda>_. 0), uuid = (\<lambda>_. [])\<rparr>"

definition yellows :: "card list" where
  "yellows = [mkCard ''yellow'' ''1'' ''y1'', mkCard ''yellow'' ''2'' ''y2'',
              mkCard ''yellow'' ''3'' ''y3'', mkCard ''yellow'' ''4'' ''y4'',
              mkCard ''yellow'' ''6'' ''y6'']"

text \<open>Two players; \<open>a\<close> is to play on a red 9.\<close>

definition duel :: server where
  "duel = serving
     (seats [seat 0 ''a'' [mkCard ''red'' ''reverse'' ''c1'', mkCard ''red'' ''5'' ''c2'',
                          mkCard ''blue'' ''7'' ''c3'', mkCard ''wild'' ''wild'' ''c9''],
             seat 1 ''b'' [mkCard ''green'' ''3'' ''c4'', mkCard ''green'' ''4'' ''c5'']]
        yellows [mkCard ''red'' ''9'' ''c0''] 0)
     Map.empty"

text \<open>Two players; \<open>a\<close> plays the last card while \<open>b\<close> can still be caught (timeout 3).\<close>

definition endgame :: server where
  "endgame = serving
     (seats [seat 0 ''a'' [mkCard ''red'' ''draw2'' ''c1''],
             (seat 1 ''b'' [mkCard ''green'' ''3'' ''c4''])\<lparr>canBeCaught := True, catchTimeout := Some 3\<rparr>]
        yellows [mkCard ''red'' ''9'' ''c0''] 0)
     [3 \<mapsto> 1]"

text \<open>Three players; \<open>a\<close> holds a draw2 and a wild draw4.\<close>

definition trio :: server where
  "trio = serving
     (seats [seat 0 ''a'' [mkCard ''red'' ''draw2'' ''c1'', mkCard ''red'' ''5'' ''c2'',
                          mkCard ''blue'' ''7'' ''c3'', mkCard ''wild'' ''wild_draw4'' ''c8''],
             seat 1 ''b'' [mkCard ''green'' ''3'' ''c4'', mkCard ''green'' ''4'' ''c5''],
             seat 2 ''c'' [mkCard ''green'' ''6'' ''c6'', mkCard ''green'' ''8'' ''c7'']]
        yellows [mkCard ''red'' ''9'' ''c0''] 0)
     Map.empty"

text \<open>Four players; it is the turn of \<open>c\<close>, at index 2.\<close>

definition quartet :: server where
  "quartet = serving
     (seats [seat 0 ''a'' [mkCard ''red'' ''1'' ''c1'', mkCard ''red'' ''5'' ''c2''],
             seat 1 ''b'' [mkCard ''green'' ''3'' ''c3'', mkCard ''green'' ''4'' ''c4''],
             seat 2 ''c'' [mkCard ''green'' ''6'' ''c5'', mkCard ''green'' ''8'' ''c6''],
             seat 3 ''d'' [mkCard ''blue'' ''6'' ''c7'', mkCard ''blue'' ''8'' ''c8'']]
        yellows [mkCard ''red'' ''9'' ''c0''] 2)
     Map.empty"

text \<open>
  Two players; \<open>a\<close> went down to one card without saying UNO (timeout 3 is pending)
  and holds the given hand now; it is the turn of \<open>b\<close>.
\<close>

definition forgetful :: "card list \<Rightarrow> server" where
  "forgetful hand = serving
     (seats [(seat 0 ''a'' hand)\<lparr>canBeCaught := True, catchTimeout := Some 3\<rparr>,
             seat 1 ''b'' [mkCard ''green'' ''4'' ''c5'', mkCard ''green'' ''6'' ''c6'']]
        yellows [mkCard ''red'' ''9'' ''c0''] 1)
     [3 \<mapsto> 0]"

text \<open>A process with a room in the lobby under the code \<open>AAAAAA\<close>.\<close>

definition taken :: server where
  "taken = serving
     ((seats [seat 0 ''a'' [], seat 1 ''b'' []] [] [] 0)
        \<lparr>code := ''AAAAAA'', gameStarted := False\<rparr>)
     Map.empty"

text \<open>
  Reading the result of a handler: the events, a room of the registry and the entry
  of a timeout afterwards (\<open>None\<close> after a fault).
\<close>

definition eventsAfter :: "fault + (emit list \<times> server) \<Rightarrow> emit list option" where
  "eventsAfter res = (case res of Inl _ \<Rightarrow> None | Inr (evs, s') \<Rightarrow> Some evs)"

definition roomAfter :: "fault + (emit list \<times> server) \<Rightarrow> string \<Rightarrow> room option" where
  "roomAfter res rc = (case res of Inl _ \<Rightarrow> None | Inr (evs, s') \<Rightarrow> rooms s' rc)"

definition timerAfter :: "fault + (emit list \<times> server) \<Rightarrow> nat \<Rightarrow> nat option option" where
  "timerAfter res h = (case res of Inl _ \<Rightarrow> None | Inr (evs, s') \<Rightarrow> Some (timers s' h))"

lemmas room_defs = Let_def serving_def seats_def seat_def newPlayer_def mkCard_def yellows_def

lemmas after_defs = eventsAfter_def roomAfter_def timerAfter_def

lemmas play_defs = playCard_def applyPlay_def canPlayCard_def topCard_def orNull_def splice1_def
  unoLogic_def specialCards_def forcedDraw_def moveToNext_def getNextPlayer_def jsRem_def
  sendToPlayers_def at_def drawCards_def numeral_2_eq_2

section \<open>Properties of the primitives\<close>

lemma findIndex_cases:
  "findIndex P xs = - 1 \<or>
   (0 \<le> findIndex P xs \<and> findIndex P xs < int (length xs) \<and> P (xs ! nat (findIndex P xs)))"
proof (induction xs)
  case Nil
  show ?case by simp
next
  case (Cons x xs)
  show ?case
  proof (cases "P x")
    case True
    then show ?thesis by simp
  next
    case False
    from Cons show ?thesis
    proof
      assume "findIndex P xs = - 1"
      with False show ?thesis by simp
    next
      assume h: "0 \<le> findIndex P xs \<and> findIndex P xs < int (length xs) \<and> P (xs ! nat (findIndex P xs))"
      then have "nat (findIndex P xs + 1) = Suc (nat (findIndex P xs))" by linarith
      with h False show ?thesis by (simp add: Let_def)
    qed
  qed
qed

lemma length_shuffleLoop: "length (fst (shuffleLoop i xs g)) = length xs"
  by (induction i arbitrary: xs g) (simp_all add: Let_def)

lemma length_shuffleDeck: "length (fst (shuffleDeck xs g)) = length xs"
  by (simp add: shuffleDeck_def length_shuffleLoop)

text \<open>\<open>drawCards\<close> touches the deck and the discard pile only.\<close>

lemma drawLoop_frame:
  "drawLoop k cs r g = Inr (cs', r', g') \<Longrightarrow>
     players r' = players r \<and> currentPlayerIndex r' = currentPlayerIndex r \<and>
     direction r' = direction r \<and> chosenColor r' = chosenColor r \<and>
     gameStarted r' = gameStarted r \<and> winner r' = winner r \<and> code r' = code r"
proof (induction k arbitrary: cs r g)
  case 0
  then show ?case by simp
next
  case (Suc k)
  show ?case
  proof (cases "deck r = []")
    case False
    with Suc.prems have "drawLoop k (cs @ [last (deck r)]) (r\<lparr>deck := butlast (deck r)\<rparr>) g = Inr (cs', r', g')"
      by simp
    from Suc.IH [OF this] show ?thesis by simp
  next
    case True
    obtain d g2 where sh: "shuffleDeck (butlast (discardPile r)) g = (d, g2)"
      by (cases "shuffleDeck (butlast (discardPile r)) g")
    from True Suc.prems have ne: "discardPile r \<noteq> []"
      by (auto split: if_splits)
    show ?thesis
    proof (cases "d = []")
      case True
      with \<open>deck r = []\<close> ne sh Suc.prems
      have "drawLoop k cs (r\<lparr>deck := d, discardPile := [last (discardPile r)]\<rparr>) g2 = Inr (cs', r', g')"
        by (simp add: Let_def)
      from Suc.IH [OF this] show ?thesis by simp
    next
      case False
      with \<open>deck r = []\<close> ne sh Suc.prems
      have "drawLoop k (cs @ [last d])
              (r\<lparr>discardPile := [last (discardPile r)], deck := butlast d\<rparr>) g2 = Inr (cs', r', g')"
        by (simp add: Let_def)
      from Suc.IH [OF this] show ?thesis by simp
    qed
  qed
qed

lemma drawCards_frame:
  "drawCards r n g = Inr (cs, r', g') \<Longrightarrow>
     players r' = players r \<and> currentPlayerIndex r' = currentPlayerIndex r \<and>
     direction r' = direction r \<and> chosenColor r' = chosenColor r \<and>
     gameStarted r' = gameStarted r \<and> winner r' = winner r \<and> code r' = code r"
  unfolding drawCards_def by (rule drawLoop_frame)

text \<open>
  With a card on the discard pile (or enough cards in the deck) \<open>drawCards\<close> returns,
  and returns as many cards as asked for unless the deck and the rest of the discard
  pile hold fewer.
\<close>

lemma drawLoop_length:
  "discardPile r \<noteq> [] \<or> k \<le> length (deck r) \<Longrightarrow>
   \<exists>cs' r' g'. drawLoop k cs r g = Inr (cs', r', g') \<and>
     length cs' = length cs + min k (length (deck r) + (length (discardPile r) - 1))"
proof (induction k arbitrary: cs r g)
  case 0
  then show ?case by simp
next
  case (Suc k)
  show ?case
  proof (cases "deck r = []")
    case False
    let ?r = "r\<lparr>deck := butlast (deck r)\<rparr>"
    have step: "drawLoop (Suc k) cs r g = drawLoop k (cs @ [last (deck r)]) ?r g"
      using False by simp
    have pos: "1 \<le> length (deck r)"
      using False by (cases "deck r") simp_all
    from False Suc.prems have "discardPile ?r \<noteq> [] \<or> k \<le> length (deck ?r)"
      by auto
    from Suc.IH [OF this, of "cs @ [last (deck r)]" g]
    obtain cs' r' g' where
      run: "drawLoop k (cs @ [last (deck r)]) ?r g = Inr (cs', r', g')" and
      len: "length cs' = length (cs @ [last (deck r)]) + min k (length (deck ?r) + (length (discardPile ?r) - 1))"
      by blast
    from len have "length cs' = length cs + 1 + min k (length (deck r) - 1 + (length (discardPile r) - 1))"
      by simp
    with pos have "length cs' = length cs + min (Suc k) (length (deck r) + (length (discardPile r) - 1))"
      by arith
    with run step show ?thesis by simp
  next
    case True
    with Suc.prems have ne: "discardPile r \<noteq> []" by simp
    obtain d g2 where sh: "shuffleDeck (butlast (discardPile r)) g = (d, g2)"
      by (cases "shuffleDeck (butlast (discardPile r)) g")
    have ld: "length d = length (discardPile r) - 1"
      using length_shuffleDeck [of "butlast (discardPile r)" g] sh by simp
    show ?thesis
    proof (cases "d = []")
      case dnil: True
      let ?r = "r\<lparr>deck := d, discardPile := [last (discardPile r)]\<rparr>"
      have step: "drawLoop (Suc k) cs r g = drawLoop k cs ?r g2"
        using True ne sh dnil by (simp add: Let_def)
      have "discardPile ?r \<noteq> [] \<or> k \<le> length (deck ?r)" by simp
      from Suc.IH [OF this, of cs g2]
      obtain cs' r' g' where
        run: "drawLoop k cs ?r g2 = Inr (cs', r', g')" and
        len: "length cs' = length cs + min k (length (deck ?r) + (length (discardPile ?r) - 1))"
        by blast
      from len dnil ld True
      have "length cs' = length cs + min (Suc k) (length (deck r) + (length (discardPile r) - 1))"
        by simp
      with run step show ?thesis by simp
    next
      case dne: False
      let ?r = "r\<lparr>discardPile := [last (discardPile r)], deck := butlast d\<rparr>"
      have step: "drawLoop (Suc k) cs r g = drawLoop k (cs @ [last d]) ?r g2"
        using True ne sh dne by (simp add: Let_def)
      have pos: "1 \<le> length d"
        using dne by (cases d) simp_all
      have "discardPile ?r \<noteq> [] \<or> k \<le> length (deck ?r)" by simp
      from Suc.IH [OF this, of "cs @ [last d]" g2]
      obtain cs' r' g' where
        run: "drawLoop k (cs @ [last d]) ?r g2 = Inr (cs', r', g')" and
        len: "length cs' = length (cs @ [last d]) + min k (length (deck ?r) + (length (discardPile ?r) - 1))"
        by blast
      from len have "length cs' = length cs + 1 + min k (length d - 1)"
        by simp
      with pos ld True
      have "length cs' = length cs + min (Suc k) (length (deck r) + (length (discardPile r) - 1))"
        by simp
      with run step show ?thesis by simp
    qed
  qed
qed

lemma drawCards_length:
  "discardPile r \<noteq> [] \<or> n \<le> length (deck r) \<Longrightarrow>
   \<exists>cs r' g'. drawCards r n g = Inr (cs, r', g') \<and>
     length cs = min n (length (deck r) + (length (discardPile r) - 1))"
  unfolding drawCards_def using drawLoop_length [of r n "[]" g] by simp

text \<open>What the steps of \<open>playCard\<close> leave as it is.\<close>

lemma clearCatchTimeouts_frame:
  "clearCatchTimeouts ps t = (ps', t') \<Longrightarrow>
     map cards ps' = map cards ps \<and> map saidUno ps' = map saidUno ps \<and>
     map canBeCaught ps' = map canBeCaught ps \<and> map pid ps' = map pid ps \<and>
     map oid ps' = map oid ps \<and> map isHost ps' = map isHost ps"
  by (induction ps arbitrary: t ps' t')
     (auto simp: Let_def split: option.splits prod.splits)

lemma unoLogic_frame:
  "unoLogic rc i r s = (evs, r', s') \<Longrightarrow>
     length (players r') = length (players r) \<and>
     currentPlayerIndex r' = currentPlayerIndex r \<and> direction r' = direction r \<and>
     chosenColor r' = chosenColor r \<and> gameStarted r' = gameStarted r \<and>
     deck r' = deck r \<and> discardPile r' = discardPile r \<and>
     random s' = random s \<and> rooms s' = rooms s"
  by (auto simp: unoLogic_def Let_def split: if_splits)

lemma forcedDraw_frame:
  "forcedDraw n r g = Inr (evs, r', g') \<Longrightarrow>
     length (players r') = length (players r) \<and>
     currentPlayerIndex r' = getNextPlayer r \<and> direction r' = direction r \<and>
     chosenColor r' = chosenColor r \<and> gameStarted r' = gameStarted r"
  by (auto simp: forcedDraw_def Let_def split: option.splits sum.splits dest!: drawCards_frame)

lemma specialCards_frame:
  "specialCards c r g = Inr (b, evs, r', g') \<Longrightarrow>
     length (players r') = length (players r) \<and>
     chosenColor r' = chosenColor r \<and> gameStarted r' = gameStarted r"
  by (auto simp: specialCards_def Let_def split: if_splits sum.splits dest!: forcedDraw_frame)

lemma moveToNext_frame:
  "players (moveToNext b r) = players r \<and> chosenColor (moveToNext b r) = chosenColor r \<and>
   direction (moveToNext b r) = direction r \<and> gameStarted (moveToNext b r) = gameStarted r"
  by (simp add: moveToNext_def Let_def)

text \<open>The generated room code: six characters of \<open>chars\<close>.\<close>

lemma length_codeLoop: "length (fst (codeLoop k c g)) = length c + k"
  by (induction k arbitrary: c g) simp_all

lemma set_codeLoop: "set (fst (codeLoop k c g)) \<subseteq> set c \<union> set chars"
proof (induction k arbitrary: c g)
  case 0
  show ?case by simp
next
  case (Suc k)
  have "g 0 mod length chars < length chars" by (simp add: chars_def)
  then have "chars ! (g 0 mod length chars) \<in> set chars" by (rule nth_mem)
  with Suc [of "c @ [chars ! (g 0 mod length chars)]" "advance g"] show ?case
    by auto
qed

lemma all_zero_code: "generateRoomCode (\<lambda>_. 0) = (''AAAAAA'', (\<lambda>_. 0))"
proof -
  have adv: "advance (\<lambda>_. 0::nat) = (\<lambda>_. 0)" by (simp add: advance_def)
  have c0: "chars ! 0 = CHR ''A''" by (simp add: chars_def)
  have six: "(6::nat) = Suc (Suc (Suc (Suc (Suc (Suc 0)))))" by simp
  show ?thesis
    unfolding generateRoomCode_def six by (simp add: adv c0)
qed

section \<open>Rejected actions\<close>

text \<open>No handler emits an \<open>error\<close> event on a path that changes the state.\<close>

lemma sendToPlayers_events:
  "sendToPlayers r ev = Inr evs \<Longrightarrow> (d, e) \<in> set evs \<Longrightarrow> e = ev"
  by (auto simp: sendToPlayers_def split: if_splits option.splits)

lemma unoLogic_events:
  "unoLogic rc i r s = (evs, r', s') \<Longrightarrow> (d, ErrorEv e) \<notin> set evs"
  by (auto simp: unoLogic_def Let_def split: if_splits)

lemma forcedDraw_events:
  "forcedDraw n r g = Inr (evs, r', g') \<Longrightarrow> (d, ErrorEv e) \<notin> set evs"
  by (auto simp: forcedDraw_def Let_def split: if_splits option.splits sum.splits)

lemma specialCards_events:
  "specialCards c r g = Inr (b, evs, r', g') \<Longrightarrow> (d, ErrorEv e) \<notin> set evs"
  by (auto simp: specialCards_def Let_def  split: if_splits sum.splits dest: forcedDraw_events)

lemma applyPlay_events:
  "applyPlay s rc r i k chosen = Inr (evs, s') \<Longrightarrow> (d, ErrorEv e) \<notin> set evs"
  by (auto simp: applyPlay_def Let_def split: if_splits sum.splits prod.splits
      dest: specialCards_events unoLogic_events sendToPlayers_events)

lemma playCard_rejected:
  "playCard s sid cardId chosen = Inr (evs, s') \<Longrightarrow> (d, ErrorEv e) \<in> set evs \<Longrightarrow> s' = s"
  by (auto simp: playCard_def Let_def split: option.splits if_splits sum.splits
      dest: applyPlay_events)

lemma drawCard_rejected:
  "drawCard s sid = Inr (evs, s') \<Longrightarrow> (d, ErrorEv e) \<in> set evs \<Longrightarrow> s' = s"
  by (auto simp: drawCard_def Let_def split: option.splits if_splits sum.splits prod.splits
      dest: sendToPlayers_events)

lemma catchUno_rejected:
  "catchUno s sid target = Inr (evs, s') \<Longrightarrow> (d, ErrorEv e) \<in> set evs \<Longrightarrow> s' = s"
  by (auto simp: catchUno_def Let_def split: option.splits if_splits sum.splits prod.splits
      dest: sendToPlayers_events)

lemma joinRoom_rejected:
  "joinRoom s sid c n = (evs, s') \<Longrightarrow> (d, ErrorEv e) \<in> set evs \<Longrightarrow> s' = s"
  by (auto simp: joinRoom_def Let_def split: option.splits if_splits)

lemma initGame_events:
  "initGame s rc r = Some (Inr (evs, s')) \<Longrightarrow> (d, ErrorEv e) \<notin> set evs"
  by (auto simp: initGame_def Let_def split: option.splits if_splits sum.splits prod.splits
      dest: sendToPlayers_events)

lemma startGame_rejected:
  "startGame s sid = Some (Inr (evs, s')) \<Longrightarrow> (d, ErrorEv e) \<in> set evs \<Longrightarrow> s' = s"
  by (auto simp: startGame_def Let_def split: option.splits if_splits
      dest: initGame_events)

text \<open>
  C9.  An action is rejected when its handler answers with an \<open>error\<close> event (wrong
  turn, unknown card, illegal card, room not found, room full, game already started,
  not the host or too few players to start, player not found, self-catch, too late to
  catch).  Whenever a handler emits an \<open>error\<close> event, the state it returns is the
  state it was given: the whole process state, and with it every room, is unchanged.
\<close>

theorem rejected_action_changes_nothing:
  "(playCard s sid cardId chosen = Inr (evs, s') \<and> (d, ErrorEv e) \<in> set evs \<longrightarrow> s' = s) \<and>
   (drawCard s sid = Inr (evs, s') \<and> (d, ErrorEv e) \<in> set evs \<longrightarrow> s' = s) \<and>
   (catchUno s sid targetPlayerId = Inr (evs, s') \<and> (d, ErrorEv e) \<in> set evs \<longrightarrow> s' = s) \<and>
   (joinRoom s sid code' playerName = (evs, s') \<and> (d, ErrorEv e) \<in> set evs \<longrightarrow> s' = s) \<and>
   (startGame s sid = Some (Inr (evs, s')) \<and> (d, ErrorEv e) \<in> set evs \<longrightarrow> s' = s)"
  by (auto dest: playCard_rejected drawCard_rejected catchUno_rejected joinRoom_rejected
      startGame_rejected)

theorem rejected_action_changes_nothing_witness:
  "playCard duel ''b'' ''c4'' None = Inr ([(ToSocket ''b'', ErrorEv NotYourTurn)], duel) \<and>
   drawCard duel ''b'' = Inr ([(ToSocket ''b'', ErrorEv NotYourTurn)], duel) \<and>
   catchUno duel ''b'' ''b'' = Inr ([(ToSocket ''b'', ErrorEv CantCatchYourself)], duel) \<and>
   joinRoom duel ''z'' ''room01'' ''zed'' = ([(ToSocket ''z'', ErrorEv GameInProgress)], duel) \<and>
   startGame duel ''b'' = Some (Inr ([(ToSocket ''b'', ErrorEv OnlyHost)], duel))"
  using
    rejected_action_changes_nothing [of duel "''b''" "''c4''" None
      "[(ToSocket ''b'', ErrorEv NotYourTurn)]" duel "ToSocket ''b''" NotYourTurn]
    rejected_action_changes_nothing [of duel "''b''" _ _
      "[(ToSocket ''b'', ErrorEv CantCatchYourself)]" duel "ToSocket ''b''" CantCatchYourself "''b''"]
    rejected_action_changes_nothing [of duel "''z''" _ _
      "[(ToSocket ''z'', ErrorEv GameInProgress)]" duel "ToSocket ''z''" GameInProgress _
      "''room01''" "''zed''"]
    rejected_action_changes_nothing [of duel "''b''" _ _
      "[(ToSocket ''b'', ErrorEv OnlyHost)]" duel "ToSocket ''b''" OnlyHost]
  by (simp add: playCard_def drawCard_def catchUno_def joinRoom_def startGame_def
      toUpperCase_def upperChar_def duel_def room_defs)

section \<open>Accepted plays\<close>

text \<open>
  A play is accepted when \<open>playCard\<close>, run for a socket whose room is started, returns
  without an \<open>error\<close> event: then it is the socket's turn, the card is in the hand
  and can be played, and the rest of the handler has run.
\<close>

lemma playCard_accepted:
  assumes run: "playCard s sid cardId chosen = Inr (evs, s')"
    and sock: "roomCode s sid = Some rc" and reg: "rooms s rc = Some r"
    and started: "gameStarted r"
    and accepted: "\<forall>d e. (d, ErrorEv e) \<notin> set evs"
  shows "\<exists>i k. currentPlayerIndex r = int i \<and> i < length (players r) \<and>
           pid (players r ! i) = sid \<and>
           findIndex (\<lambda>c. cid c = cardId) (cards (players r ! i)) = int k \<and>
           k < length (cards (players r ! i)) \<and>
           cid (cards (players r ! i) ! k) = cardId \<and>
           canPlayCard (cards (players r ! i) ! k) (topCard r) (chosenColor r) = Inr True \<and>
           applyPlay s rc r i k chosen = Inr (evs, s')"
proof -
  let ?pi = "findIndex (\<lambda>p. pid p = sid) (players r)"
  from run sock reg started accepted have turn: "?pi = currentPlayerIndex r"
    by (auto simp: playCard_def Let_def split: if_splits)
  from run sock reg started turn have nm: "?pi \<noteq> - 1"
    by (auto simp: playCard_def Let_def split: if_splits)
  with findIndex_cases [of "\<lambda>p. pid p = sid" "players r"]
  have rng: "0 \<le> ?pi" "?pi < int (length (players r))" "pid (players r ! nat ?pi) = sid"
    by auto
  let ?p = "players r ! nat ?pi"
  let ?ci = "findIndex (\<lambda>c. cid c = cardId) (cards ?p)"
  from run sock reg started turn nm accepted have cf: "?ci \<noteq> - 1"
    by (auto simp: playCard_def Let_def split: if_splits)
  with findIndex_cases [of "\<lambda>c. cid c = cardId" "cards ?p"]
  have crng: "0 \<le> ?ci" "?ci < int (length (cards ?p))" "cid (cards ?p ! nat ?ci) = cardId"
    by auto
  from run sock reg started turn nm cf accepted
  have ok: "canPlayCard (cards ?p ! nat ?ci) (topCard r) (chosenColor r) = Inr True"
    by (auto simp: playCard_def Let_def split: if_splits sum.splits)
  from run sock reg started turn nm cf ok
  have ap: "applyPlay s rc r (nat ?pi) (nat ?ci) chosen = Inr (evs, s')"
    by (simp add: playCard_def Let_def)
  show ?thesis
    apply (rule exI [of _ "nat ?pi"])
    apply (rule exI [of _ "nat ?ci"])
    using turn rng crng ok ap by auto
qed

lemma applyPlay_chosenColor:
  assumes ap: "applyPlay s rc r i k chosen = Inr (evs, s')"
  shows "\<exists>r'. rooms s' rc = Some r' \<and> chosenColor r' = orNull chosen"
proof -
  let ?p = "players r ! i"
  let ?p1 = "?p\<lparr>cards := splice1 k (cards ?p)\<rparr>"
  let ?r1 = "r\<lparr>players := (players r)[i := ?p1], discardPile := discardPile r @ [cards ?p ! k],
               chosenColor := orNull chosen\<rparr>"
  show ?thesis
  proof (cases "length (cards ?p1) = 0")
    case True
    with ap show ?thesis
      by (auto simp: applyPlay_def Let_def split: prod.splits)
  next
    case False
    obtain evs1 r2 s2 where ul: "unoLogic rc i ?r1 s = (evs1, r2, s2)"
      by (cases "unoLogic rc i ?r1 s") auto
    let ?r3 = "r2\<lparr>players := (players r2)[i := (players r2 ! i)\<lparr>saidUno := False\<rparr>]\<rparr>"
    from ap False ul obtain skipNext evs2 r4 g where
      sc: "specialCards (cards ?p ! k) ?r3 (random s2) = Inr (skipNext, evs2, r4, g)"
      by (auto simp: applyPlay_def Let_def split: sum.splits)
    from ap False ul sc
    have s': "s' = s2\<lparr>rooms := (rooms s2)(rc \<mapsto> moveToNext skipNext r4), random := g\<rparr>"
      by (auto simp: applyPlay_def Let_def split: sum.splits)
    from unoLogic_frame [OF ul] specialCards_frame [OF sc]
    have "chosenColor (moveToNext skipNext r4) = orNull chosen"
      by (simp add: moveToNext_frame)
    with s' show ?thesis by simp
  qed
qed

lemma two_player_round_trip:
  assumes "n = 2" "i = 0 \<or> i = 1" "d = 1 \<or> d = - 1"
  shows "jsRem (jsRem (int i + d + int n) (int n) + d + int n) (int n) = int i"
  using assms by (auto simp: jsRem_def)

subsection \<open>The winning play\<close>

text \<open>
  C2.  An accepted play of the last card of the hand ends the game at once: the room
  is no longer started, the winner is the acting player and the only event is
  \<open>gameOver\<close>.  Nothing else happens for that action: no hand but the actor's changes
  and the actor's is empty, the deck is untouched (nobody draws, whatever the card
  was), the discard pile gains the played card only, the turn index and the direction
  stay, no \<open>saidUno\<close> or \<open>canBeCaught\<close> flag changes, no timeout is started and no
  random number is used.
\<close>

theorem winning_play_ends_game:
  assumes run: "playCard s sid cardId chosen = Inr (evs, s')"
    and sock: "roomCode s sid = Some rc" and reg: "rooms s rc = Some r"
    and started: "gameStarted r"
    and accepted: "\<forall>d e. (d, ErrorEv e) \<notin> set evs"
    and lastCard: "length (cards (players r ! nat (currentPlayerIndex r))) = 1"
  shows "\<exists>r'. rooms s' rc = Some r' \<and>
           \<not> gameStarted r' \<and>
           winner r' = Some (oid (players r ! nat (currentPlayerIndex r))) \<and>
           evs = [(ToRoom rc, GameOver sid)] \<and>
           map cards (players r') = (map cards (players r))[nat (currentPlayerIndex r) := []] \<and>
           deck r' = deck r \<and>
           discardPile r' = discardPile r @ cards (players r ! nat (currentPlayerIndex r)) \<and>
           currentPlayerIndex r' = currentPlayerIndex r \<and>
           direction r' = direction r \<and>
           map saidUno (players r') = map saidUno (players r) \<and>
           map canBeCaught (players r') = map canBeCaught (players r) \<and>
           random s' = random s \<and> nextTimer s' = nextTimer s"
proof -
  from playCard_accepted [OF run sock reg started accepted]
  obtain i k where cur: "currentPlayerIndex r = int i" and i: "i < length (players r)"
    and me: "pid (players r ! i) = sid"
    and k: "k < length (cards (players r ! i))"
    and ap: "applyPlay s rc r i k chosen = Inr (evs, s')"
    by blast
  let ?p = "players r ! i"
  from cur have ni: "nat (currentPlayerIndex r) = i" by simp
  from lastCard ni k have k0: "k = 0" by simp
  from lastCard ni obtain c where hand: "cards ?p = [c]"
    by (cases "cards ?p") auto
  let ?p1 = "?p\<lparr>cards := []\<rparr>"
  let ?r1 = "r\<lparr>players := (players r)[i := ?p1], discardPile := discardPile r @ [c],
               chosenColor := orNull chosen\<rparr>"
  obtain ps t where cl: "clearCatchTimeouts (players ?r1) (timers s) = (ps, t)"
    by (cases "clearCatchTimeouts (players ?r1) (timers s)")
  let ?r2 = "?r1\<lparr>winner := Some (oid ?p1), gameStarted := False, players := ps\<rparr>"
  from ap hand k0 cl
  have res: "evs = [(ToRoom rc, GameOver (pid ?p1))]"
            "s' = s\<lparr>rooms := (rooms s)(rc \<mapsto> ?r2), timers := t\<rparr>"
    by (simp_all add: applyPlay_def splice1_def Let_def)
  from clearCatchTimeouts_frame [OF cl] i
  have fr: "map cards ps = (map cards (players r))[i := []]"
           "map saidUno ps = map saidUno (players r)"
           "map canBeCaught ps = map canBeCaught (players r)"
    by (simp_all add: map_update list_update_same_conv)
  show ?thesis
    apply (rule exI [of _ ?r2])
    using res fr me hand ni by simp
qed

text \<open>In \<open>endgame\<close> the last card of \<open>a\<close> is a draw2: \<open>b\<close> draws nothing.\<close>

theorem winning_play_ends_game_witness:
  "eventsAfter (playCard endgame ''a'' ''c1'' None) = Some [(ToRoom ''ROOM01'', GameOver ''a'')] \<and>
   map_option gameStarted (roomAfter (playCard endgame ''a'' ''c1'' None) ''ROOM01'') = Some False \<and>
   map_option winner (roomAfter (playCard endgame ''a'' ''c1'' None) ''ROOM01'') = Some (Some 0) \<and>
   map_option (map cards \<circ> players) (roomAfter (playCard endgame ''a'' ''c1'' None) ''ROOM01'') =
     Some [[], [mkCard ''green'' ''3'' ''c4'']] \<and>
   map_option deck (roomAfter (playCard endgame ''a'' ''c1'' None) ''ROOM01'') = Some yellows"
proof -
  have "\<exists>evs s'. playCard endgame ''a'' ''c1'' None = Inr (evs, s') \<and>
          (\<forall>d e. (d, ErrorEv e) \<notin> set evs)"
    by (simp add: play_defs endgame_def room_defs)
  then obtain evs s' where run: "playCard endgame ''a'' ''c1'' None = Inr (evs, s')"
    and acc: "\<forall>d e. (d, ErrorEv e) \<notin> set evs"
    by blast
  let ?r = "seats [seat 0 ''a'' [mkCard ''red'' ''draw2'' ''c1''],
             (seat 1 ''b'' [mkCard ''green'' ''3'' ''c4''])\<lparr>canBeCaught := True, catchTimeout := Some 3\<rparr>]
        yellows [mkCard ''red'' ''9'' ''c0''] 0"
  have sock: "roomCode endgame ''a'' = Some ''ROOM01''"
    by (simp add: endgame_def room_defs)
  have reg: "rooms endgame ''ROOM01'' = Some ?r"
    by (simp add: endgame_def room_defs)
  have started: "gameStarted ?r" by (simp add: room_defs)
  have lastCard: "length (cards (players ?r ! nat (currentPlayerIndex ?r))) = 1"
    by (simp add: room_defs)
  from winning_play_ends_game [OF run sock reg started acc lastCard] run
  show ?thesis by (auto simp: room_defs after_defs)
qed

subsection \<open>The chosen color\<close>

text \<open>
  C7, as the code has it.  After every accepted play the chosen color of the room is
  the color sent with the request, or null when none (or the empty string) was sent:
  it does not depend on the card played.
\<close>

theorem declared_color_follows_request:
  assumes run: "playCard s sid cardId chosen = Inr (evs, s')"
    and sock: "roomCode s sid = Some rc" and reg: "rooms s rc = Some r"
    and started: "gameStarted r"
    and accepted: "\<forall>d e. (d, ErrorEv e) \<notin> set evs"
  shows "\<exists>r'. rooms s' rc = Some r' \<and> chosenColor r' = orNull chosen"
  using playCard_accepted [OF run sock reg started accepted] applyPlay_chosenColor
  by blast

text \<open>In \<open>duel\<close>, \<open>a\<close> plays the wild card with the color green.\<close>

theorem declared_color_follows_request_witness:
  "map_option chosenColor (roomAfter (playCard duel ''a'' ''c9'' (Some ''green'')) ''ROOM01'')
     = Some (Some ''green'')"
proof -
  have "\<exists>evs s'. playCard duel ''a'' ''c9'' (Some ''green'') = Inr (evs, s') \<and>
          (\<forall>d e. (d, ErrorEv e) \<notin> set evs)"
    by (simp add: play_defs duel_def room_defs)
  then obtain evs s' where run: "playCard duel ''a'' ''c9'' (Some ''green'') = Inr (evs, s')"
    and acc: "\<forall>d e. (d, ErrorEv e) \<notin> set evs"
    by blast
  have sock: "roomCode duel ''a'' = Some ''ROOM01''"
    by (simp add: duel_def room_defs)
  have "\<exists>r. rooms duel ''ROOM01'' = Some r \<and> gameStarted r"
    by (simp add: duel_def room_defs)
  then obtain r where reg: "rooms duel ''ROOM01'' = Some r" and started: "gameStarted r"
    by auto
  from declared_color_follows_request [OF run sock reg started acc] run
  show ?thesis by (auto simp: after_defs orNull_def)
qed

text \<open>
  C7 as stated fails.  In \<open>duel\<close> the play of the red 5 with the color blue in the
  request is accepted and leaves the chosen color blue, not null; and the play of the
  wild card without a color is accepted and completes with the chosen color null.
\<close>

theorem declared_color_counterexample:
  "map_option chosenColor (roomAfter (playCard duel ''a'' ''c2'' (Some ''blue'')) ''ROOM01'')
     = Some (Some ''blue'') \<and>
   eventsAfter (playCard duel ''a'' ''c2'' (Some ''blue'')) =
     Some [(ToSocket ''a'', GameState), (ToSocket ''b'', GameState)] \<and>
   map_option chosenColor (roomAfter (playCard duel ''a'' ''c9'' None) ''ROOM01'') = Some None \<and>
   map_option (map cid \<circ> discardPile) (roomAfter (playCard duel ''a'' ''c9'' None) ''ROOM01'')
     = Some [''c0'', ''c9''] \<and>
   eventsAfter (playCard duel ''a'' ''c9'' None) =
     Some [(ToSocket ''a'', GameState), (ToSocket ''b'', GameState)]"
proof -
  have "\<exists>s' r'. playCard duel ''a'' ''c2'' (Some ''blue'') =
            Inr ([(ToSocket ''a'', GameState), (ToSocket ''b'', GameState)], s') \<and>
          rooms s' ''ROOM01'' = Some r' \<and> chosenColor r' = Some ''blue''"
    by (simp add: play_defs duel_def room_defs)
  moreover
  have "\<exists>s' r'. playCard duel ''a'' ''c9'' None =
            Inr ([(ToSocket ''a'', GameState), (ToSocket ''b'', GameState)], s') \<and>
          rooms s' ''ROOM01'' = Some r' \<and> chosenColor r' = None \<and>
          map cid (discardPile r') = [''c0'', ''c9'']"
    by (simp add: play_defs duel_def room_defs)
  ultimately show ?thesis
    by (auto simp: after_defs)
qed

subsection \<open>Reverse with two players\<close>

text \<open>
  C6, as the code has it.  In a room of two players an accepted play of a reverse
  card that does not empty the hand flips the direction and sets \<open>skipNext\<close>: the
  index moves twice and is back at the player who played the reverse, who acts again.
\<close>

theorem two_player_reverse_returns_turn:
  assumes run: "playCard s sid cardId chosen = Inr (evs, s')"
    and sock: "roomCode s sid = Some rc" and reg: "rooms s rc = Some r"
    and started: "gameStarted r"
    and accepted: "\<forall>d e. (d, ErrorEv e) \<notin> set evs"
    and two: "length (players r) = 2"
    and dir: "direction r = 1 \<or> direction r = - 1"
    and rev: "\<forall>c \<in> set (cards (players r ! nat (currentPlayerIndex r))).
                cid c = cardId \<longrightarrow> cvalue c = ''reverse''"
    and more: "length (cards (players r ! nat (currentPlayerIndex r))) \<noteq> 1"
  shows "\<exists>r'. rooms s' rc = Some r' \<and> gameStarted r' \<and>
           direction r' = - direction r \<and>
           currentPlayerIndex r' = currentPlayerIndex r"
proof -
  from playCard_accepted [OF run sock reg started accepted]
  obtain i k where cur: "currentPlayerIndex r = int i" and i: "i < length (players r)"
    and k: "k < length (cards (players r ! i))"
    and kid: "cid (cards (players r ! i) ! k) = cardId"
    and ap: "applyPlay s rc r i k chosen = Inr (evs, s')"
    by blast
  let ?p = "players r ! i"
  let ?c = "cards ?p ! k"
  from cur have ni: "nat (currentPlayerIndex r) = i" by simp
  from rev ni k kid have isrev: "cvalue ?c = ''reverse''" by auto
  let ?p1 = "?p\<lparr>cards := splice1 k (cards ?p)\<rparr>"
  let ?r1 = "r\<lparr>players := (players r)[i := ?p1], discardPile := discardPile r @ [?c],
               chosenColor := orNull chosen\<rparr>"
  from more ni k have nowin: "length (cards ?p1) \<noteq> 0"
    by (simp add: splice1_def)
  obtain evs1 r2 s2 where ul: "unoLogic rc i ?r1 s = (evs1, r2, s2)"
    by (cases "unoLogic rc i ?r1 s") auto
  let ?r3 = "r2\<lparr>players := (players r2)[i := (players r2 ! i)\<lparr>saidUno := False\<rparr>]\<rparr>"
  let ?r4 = "?r3\<lparr>direction := direction ?r3 * (- 1)\<rparr>"
  from unoLogic_frame [OF ul] two
  have fr: "length (players r2) = 2" "currentPlayerIndex r2 = int i"
    "direction r2 = direction r" "gameStarted r2"
    using cur started by simp_all
  from isrev fr have sc: "specialCards ?c ?r3 (random s2) = Inr (True, [], ?r4, random s2)"
    by (simp add: specialCards_def Let_def)
  let ?r5 = "moveToNext True ?r4"
  from ap nowin ul sc
  have s': "s' = s2\<lparr>rooms := (rooms s2)(rc \<mapsto> ?r5), random := random s2\<rparr>"
    by (auto simp: applyPlay_def Let_def split: sum.splits)
  from i two have i01: "i = 0 \<or> i = 1" by auto
  from dir have dir': "- direction r = 1 \<or> - direction r = - 1" by auto
  have "currentPlayerIndex ?r5 = int i"
    using two_player_round_trip [OF _ i01 dir', of 2] fr
    by (simp add: moveToNext_def getNextPlayer_def Let_def)
  moreover have "direction ?r5 = - direction r" "gameStarted ?r5"
    using fr by (simp_all add: moveToNext_def Let_def)
  ultimately show ?thesis using s' cur by simp
qed

theorem two_player_reverse_returns_turn_witness:
  "map_option gameStarted (roomAfter (playCard duel ''a'' ''c1'' None) ''ROOM01'') = Some True \<and>
   map_option direction (roomAfter (playCard duel ''a'' ''c1'' None) ''ROOM01'') = Some (- 1) \<and>
   map_option currentPlayerIndex (roomAfter (playCard duel ''a'' ''c1'' None) ''ROOM01'') = Some 0"
proof -
  have "\<exists>evs s'. playCard duel ''a'' ''c1'' None = Inr (evs, s') \<and>
          (\<forall>d e. (d, ErrorEv e) \<notin> set evs)"
    by (simp add: play_defs duel_def room_defs)
  then obtain evs s' where run: "playCard duel ''a'' ''c1'' None = Inr (evs, s')"
    and acc: "\<forall>d e. (d, ErrorEv e) \<notin> set evs"
    by blast
  let ?r = "seats [seat 0 ''a'' [mkCard ''red'' ''reverse'' ''c1'', mkCard ''red'' ''5'' ''c2'',
                          mkCard ''blue'' ''7'' ''c3'', mkCard ''wild'' ''wild'' ''c9''],
             seat 1 ''b'' [mkCard ''green'' ''3'' ''c4'', mkCard ''green'' ''4'' ''c5'']]
        yellows [mkCard ''red'' ''9'' ''c0''] 0"
  have sock: "roomCode duel ''a'' = Some ''ROOM01''"
    by (simp add: duel_def room_defs)
  have reg: "rooms duel ''ROOM01'' = Some ?r"
    by (simp add: duel_def room_defs)
  have started: "gameStarted ?r" and two: "length (players ?r) = 2"
    and dir: "direction ?r = 1 \<or> direction ?r = - 1"
    and more: "length (cards (players ?r ! nat (currentPlayerIndex ?r))) \<noteq> 1"
    by (simp_all add: room_defs)
  have rev: "\<forall>c \<in> set (cards (players ?r ! nat (currentPlayerIndex ?r))).
                cid c = ''c1'' \<longrightarrow> cvalue c = ''reverse''"
    by (simp add: room_defs)
  from two_player_reverse_returns_turn [OF run sock reg started acc two dir rev more] run
  show ?thesis by (auto simp: room_defs after_defs)
qed

text \<open>
  C6 as stated fails.  In \<open>duel\<close>, \<open>a\<close> (index 0) plays the reverse; the play is
  accepted, the game goes on, and the current player is \<open>a\<close> again.
\<close>

theorem reverser_replays_counterexample:
  "map_option (map pid \<circ> players) (rooms duel ''ROOM01'') = Some [''a'', ''b''] \<and>
   map_option currentPlayerIndex (rooms duel ''ROOM01'') = Some 0 \<and>
   map_option (map pid \<circ> players) (roomAfter (playCard duel ''a'' ''c1'' None) ''ROOM01'')
     = Some [''a'', ''b''] \<and>
   map_option currentPlayerIndex (roomAfter (playCard duel ''a'' ''c1'' None) ''ROOM01'') = Some 0 \<and>
   map_option gameStarted (roomAfter (playCard duel ''a'' ''c1'' None) ''ROOM01'') = Some True \<and>
   eventsAfter (playCard duel ''a'' ''c1'' None) =
     Some [(ToSocket ''a'', GameState), (ToSocket ''b'', GameState)]"
proof -
  have "\<exists>s' r'. playCard duel ''a'' ''c1'' None =
            Inr ([(ToSocket ''a'', GameState), (ToSocket ''b'', GameState)], s') \<and>
          rooms s' ''ROOM01'' = Some r' \<and> map pid (players r') = [''a'', ''b''] \<and>
          currentPlayerIndex r' = 0 \<and> gameStarted r'"
    by (simp add: play_defs duel_def room_defs)
  moreover have "map_option (map pid \<circ> players) (rooms duel ''ROOM01'') = Some [''a'', ''b''] \<and>
      map_option currentPlayerIndex (rooms duel ''ROOM01'') = Some 0"
    by (simp add: duel_def room_defs)
  ultimately show ?thesis
    by (auto simp: after_defs)
qed

subsection \<open>Draw two\<close>

lemma drawLoop_four: "drawLoop 4 cs r g = drawLoop (Suc (Suc (Suc (Suc 0)))) cs r g"
  by (simp add: eval_nat_numeral)

text \<open>
  C1 fails on the code.  In \<open>trio\<close> (players \<open>a\<close>, \<open>b\<close>, \<open>c\<close>, direction 1) player
  \<open>a\<close> at index 0 plays a draw2.  Player \<open>b\<close> draws two cards, as the claim says, but
  the index, moved to \<open>b\<close> for the draw, is then moved twice more: the turn is back at
  \<open>a\<close> (index 0), not at \<open>c\<close> (index 2), the player after the victim.  The wild
  draw4 does the same with four cards.
\<close>

theorem draw_two_skips_two_players:
  "map_option (map pid \<circ> players) (rooms trio ''ROOM01'') = Some [''a'', ''b'', ''c''] \<and>
   map_option (map length \<circ> map cards \<circ> players) (rooms trio ''ROOM01'') = Some [4, 2, 2] \<and>
   map_option currentPlayerIndex (rooms trio ''ROOM01'') = Some 0 \<and>
   map_option (map length \<circ> map cards \<circ> players)
       (roomAfter (playCard trio ''a'' ''c1'' None) ''ROOM01'') = Some [3, 4, 2] \<and>
   map_option currentPlayerIndex (roomAfter (playCard trio ''a'' ''c1'' None) ''ROOM01'') = Some 0 \<and>
   map_option (map length \<circ> map cards \<circ> players)
       (roomAfter (playCard trio ''a'' ''c8'' (Some ''red'')) ''ROOM01'') = Some [3, 6, 2] \<and>
   map_option currentPlayerIndex (roomAfter (playCard trio ''a'' ''c8'' (Some ''red'')) ''ROOM01'')
     = Some 0"
proof -
  have "\<exists>evs s' r'. playCard trio ''a'' ''c1'' None = Inr (evs, s') \<and>
          rooms s' ''ROOM01'' = Some r' \<and>
          map length (map cards (players r')) = [3, 4, 2] \<and> currentPlayerIndex r' = 0"
    by (simp add: play_defs trio_def room_defs)
  moreover
  have "\<exists>evs s' r'. playCard trio ''a'' ''c8'' (Some ''red'') = Inr (evs, s') \<and>
          rooms s' ''ROOM01'' = Some r' \<and>
          map length (map cards (players r')) = [3, 6, 2] \<and> currentPlayerIndex r' = 0"
    by (simp add: play_defs drawLoop_four trio_def room_defs)
  moreover
  have "map_option (map pid \<circ> players) (rooms trio ''ROOM01'') = Some [''a'', ''b'', ''c''] \<and>
      map_option (map length \<circ> map cards \<circ> players) (rooms trio ''ROOM01'') = Some [4, 2, 2] \<and>
      map_option currentPlayerIndex (rooms trio ''ROOM01'') = Some 0"
    by (simp add: trio_def room_defs)
  ultimately show ?thesis
    by (auto simp: after_defs)
qed

section \<open>Catching\<close>

lemma catchUno_self:
  assumes sock: "roomCode s sid = Some rc" and reg: "rooms s rc = Some r"
    and started: "gameStarted r"
    and catcher: "findIndex (\<lambda>p. pid p = sid) (players r) \<noteq> - 1"
  shows "catchUno s sid sid = Inr ([(ToSocket sid, ErrorEv CantCatchYourself)], s)"
  using assms by (simp add: catchUno_def Let_def)

lemma catchUno_too_late:
  assumes sock: "roomCode s sid = Some rc" and reg: "rooms s rc = Some r"
    and started: "gameStarted r"
    and catcher: "findIndex (\<lambda>p. pid p = sid) (players r) \<noteq> - 1"
    and target: "findIndex (\<lambda>p. pid p = tid) (players r) = int j"
    and other: "sid \<noteq> tid"
    and safe: "\<not> (canBeCaught (players r ! j) \<and> length (cards (players r ! j)) = 1)"
  shows "catchUno s sid tid = Inr ([(ToSocket sid, ErrorEv TooLate)], s)"
proof -
  from findIndex_cases [of "\<lambda>p. pid p = sid" "players r"] catcher
  have c: "pid (players r ! nat (findIndex (\<lambda>p. pid p = sid) (players r))) = sid" by auto
  from findIndex_cases [of "\<lambda>p. pid p = tid" "players r"] target
  have t: "pid (players r ! j) = tid" by auto
  from sock reg started catcher target other safe c t show ?thesis
    by (auto simp: catchUno_def Let_def)
qed

lemma catchUno_caught:
  assumes sock: "roomCode s sid = Some rc" and reg: "rooms s rc = Some r"
    and started: "gameStarted r"
    and catcher: "findIndex (\<lambda>p. pid p = sid) (players r) \<noteq> - 1"
    and target: "findIndex (\<lambda>p. pid p = tid) (players r) = int j"
    and other: "sid \<noteq> tid"
    and vulnerable: "canBeCaught (players r ! j)" "length (cards (players r ! j)) = 1"
    and pile: "discardPile r \<noteq> []"
    and turn: "0 \<le> currentPlayerIndex r" "currentPlayerIndex r < int (length (players r))"
  shows "\<exists>evs s' r'. catchUno s sid tid = Inr (evs, s') \<and>
           (ToRoom rc, UnoCaught sid tid 2) \<in> set evs \<and>
           rooms s' rc = Some r' \<and>
           \<not> canBeCaught (players r' ! j) \<and> catchTimeout (players r' ! j) = None \<and>
           (\<forall>h. catchTimeout (players r ! j) = Some h \<longrightarrow> timers s' h = None) \<and>
           length (cards (players r' ! j)) =
             1 + min 2 (length (deck r) + (length (discardPile r) - 1)) \<and>
           (\<forall>m. m \<noteq> j \<longrightarrow> players r' ! m = players r ! m) \<and>
           length (players r') = length (players r)"
proof -
  from findIndex_cases [of "\<lambda>p. pid p = sid" "players r"] catcher
  have c: "pid (players r ! nat (findIndex (\<lambda>p. pid p = sid) (players r))) = sid" by auto
  from findIndex_cases [of "\<lambda>p. pid p = tid" "players r"] target
  have t: "pid (players r ! j) = tid" and j: "j < length (players r)" by auto
  from drawCards_length [of r 2 "random s"] pile
  obtain cs r1 g where dc: "drawCards r 2 (random s) = Inr (cs, r1, g)"
    and len: "length cs = min 2 (length (deck r) + (length (discardPile r) - 1))"
    by blast
  note fr = drawCards_frame [OF dc]
  let ?t1 = "(players r ! j)\<lparr>canBeCaught := False, catchTimeout := None\<rparr>"
  let ?r2 = "r1\<lparr>players := (players r1)[j := ?t1\<lparr>cards := cards ?t1 @ cs\<rparr>]\<rparr>"
  from fr turn j have snd': "sendToPlayers ?r2 GameState =
      Inr (map (\<lambda>p. (ToSocket (pid p), GameState)) (players ?r2))"
    by (auto simp: sendToPlayers_def at_def)
  let ?tm = "(case catchTimeout (players r ! j) of
               Some h \<Rightarrow> (timers s)(h := None) | None \<Rightarrow> timers s)"
  let ?s' = "s\<lparr>rooms := (rooms s)(rc \<mapsto> ?r2), timers := ?tm, random := g\<rparr>"
  from sock reg started catcher target other vulnerable c t dc snd'
  have run: "catchUno s sid tid =
      Inr ([(ToRoom rc, UnoCaught sid tid 2), (ToSocket tid, CardsDrawn)]
             @ map (\<lambda>p. (ToSocket (pid p), GameState)) (players ?r2), ?s')"
    by (simp add: catchUno_def Let_def)
  show ?thesis
    apply (rule exI [of _ "[(ToRoom rc, UnoCaught sid tid 2), (ToSocket tid, CardsDrawn)]
             @ map (\<lambda>p. (ToSocket (pid p), GameState)) (players ?r2)"])
    apply (rule exI [of _ ?s'])
    apply (rule exI [of _ ?r2])
    using run fr j len vulnerable by (auto split: option.splits)
qed

text \<open>
  C10.  For a catcher and a target that are both in the started room and are not the
  same player: when the target's flag \<open>canBeCaught\<close> is set but its hand does not
  hold exactly one card, the catch fails with "too late" and changes nothing (the flag
  and the pending timeout stay); and whenever the handler reports a catch, the
  target's hand held exactly one card.
\<close>

theorem catch_needs_exactly_one_card:
  assumes sock: "roomCode s sid = Some rc" and reg: "rooms s rc = Some r"
    and started: "gameStarted r"
    and catcher: "findIndex (\<lambda>p. pid p = sid) (players r) \<noteq> - 1"
    and target: "findIndex (\<lambda>p. pid p = tid) (players r) = int j"
    and other: "sid \<noteq> tid"
    and flag: "canBeCaught (players r ! j)"
  shows "(length (cards (players r ! j)) \<noteq> 1 \<longrightarrow>
           catchUno s sid tid = Inr ([(ToSocket sid, ErrorEv TooLate)], s)) \<and>
         (\<forall>evs s' d a b n. catchUno s sid tid = Inr (evs, s') \<and> (d, UnoCaught a b n) \<in> set evs
            \<longrightarrow> length (cards (players r ! j)) = 1)"
proof (intro conjI impI allI)
  assume "length (cards (players r ! j)) \<noteq> 1"
  then show "catchUno s sid tid = Inr ([(ToSocket sid, ErrorEv TooLate)], s)"
    using catchUno_too_late [OF sock reg started catcher target other] by simp
next
  fix evs s' d a b n
  assume h: "catchUno s sid tid = Inr (evs, s') \<and> (d, UnoCaught a b n) \<in> set evs"
  show "length (cards (players r ! j)) = 1"
  proof (rule ccontr)
    assume "length (cards (players r ! j)) \<noteq> 1"
    with catchUno_too_late [OF sock reg started catcher target other]
    have "catchUno s sid tid = Inr ([(ToSocket sid, ErrorEv TooLate)], s)" by simp
    with h show False by auto
  qed
qed

text \<open>Player \<open>a\<close> is flagged, the timeout is pending, and the hand has two cards.\<close>

theorem catch_needs_exactly_one_card_witness:
  "map_option (map canBeCaught \<circ> players)
       (rooms (forgetful [mkCard ''green'' ''3'' ''c4'', mkCard ''blue'' ''1'' ''c8'']) ''ROOM01'')
     = Some [True, False] \<and>
   timers (forgetful [mkCard ''green'' ''3'' ''c4'', mkCard ''blue'' ''1'' ''c8'']) 3 = Some 0 \<and>
   catchUno (forgetful [mkCard ''green'' ''3'' ''c4'', mkCard ''blue'' ''1'' ''c8'']) ''b'' ''a'' =
     Inr ([(ToSocket ''b'', ErrorEv TooLate)],
          forgetful [mkCard ''green'' ''3'' ''c4'', mkCard ''blue'' ''1'' ''c8''])"
proof -
  let ?h = "[mkCard ''green'' ''3'' ''c4'', mkCard ''blue'' ''1'' ''c8'']"
  let ?r = "seats [(seat 0 ''a'' ?h)\<lparr>canBeCaught := True, catchTimeout := Some 3\<rparr>,
             seat 1 ''b'' [mkCard ''green'' ''4'' ''c5'', mkCard ''green'' ''6'' ''c6'']]
        yellows [mkCard ''red'' ''9'' ''c0''] 1"
  have sock: "roomCode (forgetful ?h) ''b'' = Some ''ROOM01''"
    and reg: "rooms (forgetful ?h) ''ROOM01'' = Some ?r"
    and tm: "timers (forgetful ?h) 3 = Some 0"
    by (simp_all add: forgetful_def room_defs)
  have started: "gameStarted ?r"
    and catcher: "findIndex (\<lambda>p. pid p = ''b'') (players ?r) \<noteq> - 1"
    and target: "findIndex (\<lambda>p. pid p = ''a'') (players ?r) = int 0"
    and other: "''b'' \<noteq> ''a''"
    and flag: "canBeCaught (players ?r ! 0)"
    and hand: "length (cards (players ?r ! 0)) \<noteq> 1"
    and flags: "map canBeCaught (players ?r) = [True, False]"
    by (simp_all add: room_defs)
  from catch_needs_exactly_one_card [OF sock reg started catcher target other flag] hand reg flags tm
  show ?thesis by simp
qed

text \<open>
  C4, as the code has it.  With catcher and target in the started room: a self-catch
  is rejected; a catch of another player succeeds exactly when the target's flag is
  set and its hand holds exactly one card, and otherwise fails with "too late"; both
  failures change nothing.  On success the flag and the handle are cleared, the
  timeout is cancelled, and the target draws two cards, or as many as the deck and
  the discard pile below its top card still hold; no other player changes.
\<close>

theorem catch_outcomes:
  assumes sock: "roomCode s sid = Some rc" and reg: "rooms s rc = Some r"
    and started: "gameStarted r"
    and catcher: "findIndex (\<lambda>p. pid p = sid) (players r) \<noteq> - 1"
    and target: "findIndex (\<lambda>p. pid p = tid) (players r) = int j"
    and pile: "discardPile r \<noteq> []"
    and turn: "0 \<le> currentPlayerIndex r" "currentPlayerIndex r < int (length (players r))"
  shows "(sid = tid \<longrightarrow>
            catchUno s sid tid = Inr ([(ToSocket sid, ErrorEv CantCatchYourself)], s)) \<and>
         (sid \<noteq> tid \<and> \<not> (canBeCaught (players r ! j) \<and> length (cards (players r ! j)) = 1) \<longrightarrow>
            catchUno s sid tid = Inr ([(ToSocket sid, ErrorEv TooLate)], s)) \<and>
         (sid \<noteq> tid \<and> canBeCaught (players r ! j) \<and> length (cards (players r ! j)) = 1 \<longrightarrow>
            (\<exists>evs s' r'. catchUno s sid tid = Inr (evs, s') \<and>
               (ToRoom rc, UnoCaught sid tid 2) \<in> set evs \<and>
               rooms s' rc = Some r' \<and>
               \<not> canBeCaught (players r' ! j) \<and> catchTimeout (players r' ! j) = None \<and>
               (\<forall>h. catchTimeout (players r ! j) = Some h \<longrightarrow> timers s' h = None) \<and>
               length (cards (players r' ! j)) =
                 1 + min 2 (length (deck r) + (length (discardPile r) - 1)) \<and>
               (\<forall>m. m \<noteq> j \<longrightarrow> players r' ! m = players r ! m) \<and>
               length (players r') = length (players r)))"
proof (intro conjI impI)
  assume "sid = tid"
  with catchUno_self [OF sock reg started catcher]
  show "catchUno s sid tid = Inr ([(ToSocket sid, ErrorEv CantCatchYourself)], s)" by simp
next
  assume "sid \<noteq> tid \<and> \<not> (canBeCaught (players r ! j) \<and> length (cards (players r ! j)) = 1)"
  with catchUno_too_late [OF sock reg started catcher target]
  show "catchUno s sid tid = Inr ([(ToSocket sid, ErrorEv TooLate)], s)" by blast
next
  assume h: "sid \<noteq> tid \<and> canBeCaught (players r ! j) \<and> length (cards (players r ! j)) = 1"
  then have o: "sid \<noteq> tid" and f: "canBeCaught (players r ! j)"
    and l: "length (cards (players r ! j)) = 1" by simp_all
  from catchUno_caught [OF sock reg started catcher target o f l pile turn]
  show "\<exists>evs s' r'. catchUno s sid tid = Inr (evs, s') \<and>
               (ToRoom rc, UnoCaught sid tid 2) \<in> set evs \<and>
               rooms s' rc = Some r' \<and>
               \<not> canBeCaught (players r' ! j) \<and> catchTimeout (players r' ! j) = None \<and>
               (\<forall>h. catchTimeout (players r ! j) = Some h \<longrightarrow> timers s' h = None) \<and>
               length (cards (players r' ! j)) =
                 1 + min 2 (length (deck r) + (length (discardPile r) - 1)) \<and>
               (\<forall>m. m \<noteq> j \<longrightarrow> players r' ! m = players r ! m) \<and>
               length (players r') = length (players r)" .
qed

text \<open>
  Player \<open>a\<close> holds one card and is flagged: \<open>b\<close> catches \<open>a\<close>, who then holds three
  cards; the same catch again is too late, and \<open>b\<close> cannot catch \<open>b\<close>.
\<close>

theorem catch_outcomes_witness:
  "\<exists>evs s' r'. catchUno (forgetful [mkCard ''green'' ''3'' ''c4'']) ''b'' ''a'' = Inr (evs, s') \<and>
     (ToRoom ''ROOM01'', UnoCaught ''b'' ''a'' 2) \<in> set evs \<and>
     rooms s' ''ROOM01'' = Some r' \<and>
     \<not> canBeCaught (players r' ! 0) \<and> timers s' 3 = None \<and>
     length (cards (players r' ! 0)) = 3 \<and>
     catchUno s' ''b'' ''a'' = Inr ([(ToSocket ''b'', ErrorEv TooLate)], s') \<and>
     catchUno s' ''b'' ''b'' = Inr ([(ToSocket ''b'', ErrorEv CantCatchYourself)], s')"
proof -
  let ?h = "[mkCard ''green'' ''3'' ''c4'']"
  let ?r = "seats [(seat 0 ''a'' ?h)\<lparr>canBeCaught := True, catchTimeout := Some 3\<rparr>,
             seat 1 ''b'' [mkCard ''green'' ''4'' ''c5'', mkCard ''green'' ''6'' ''c6'']]
        yellows [mkCard ''red'' ''9'' ''c0''] 1"
  have sock: "roomCode (forgetful ?h) ''b'' = Some ''ROOM01''"
    and reg: "rooms (forgetful ?h) ''ROOM01'' = Some ?r"
    by (simp_all add: forgetful_def room_defs)
  have started: "gameStarted ?r"
    and catcher: "findIndex (\<lambda>p. pid p = ''b'') (players ?r) \<noteq> - 1"
    and target: "findIndex (\<lambda>p. pid p = ''a'') (players ?r) = int 0"
    and pile: "discardPile ?r \<noteq> []"
    and turn: "0 \<le> currentPlayerIndex ?r" "currentPlayerIndex ?r < int (length (players ?r))"
    by (simp_all add: room_defs)
  have vul: "''b'' \<noteq> ''a'' \<and> canBeCaught (players ?r ! 0) \<and> length (cards (players ?r ! 0)) = 1"
    and ht: "catchTimeout (players ?r ! 0) = Some 3"
    and sz: "min 2 (length (deck ?r) + (length (discardPile ?r) - 1)) = 2"
    by (simp_all add: room_defs)
  from catch_outcomes [OF sock reg started catcher target pile turn] vul
  obtain evs s' r' where run: "catchUno (forgetful ?h) ''b'' ''a'' = Inr (evs, s')"
    and ev: "(ToRoom ''ROOM01'', UnoCaught ''b'' ''a'' 2) \<in> set evs"
    and reg': "rooms s' ''ROOM01'' = Some r'"
    and fl: "\<not> canBeCaught (players r' ! 0)"
    and tm: "\<forall>h. catchTimeout (players ?r ! 0) = Some h \<longrightarrow> timers s' h = None"
    and ln: "length (cards (players r' ! 0)) =
                 1 + min 2 (length (deck ?r) + (length (discardPile ?r) - 1))"
    and oth: "\<forall>m. m \<noteq> 0 \<longrightarrow> players r' ! m = players ?r ! m"
    and n: "length (players r') = length (players ?r)"
    by blast
  from tm ht have tm3: "timers s' 3 = None" by simp
  from ln sz have ln3: "length (cards (players r' ! 0)) = 3" by simp
  have again: "catchUno s' ''b'' ''a'' = Inr ([(ToSocket ''b'', ErrorEv TooLate)], s') \<and>
     catchUno s' ''b'' ''b'' = Inr ([(ToSocket ''b'', ErrorEv CantCatchYourself)], s')"
    using run by (auto simp: catchUno_def play_defs forgetful_def room_defs)
  from run ev reg' fl tm3 ln3 again show ?thesis by blast
qed

text \<open>
  C4 as stated fails.  Player \<open>a\<close> is vulnerable (the flag is set and timeout 3 is
  pending for the object of \<open>a\<close>) with three cards in hand, as after a draw2 played
  against \<open>a\<close>: the catch by \<open>b\<close> fails with "too late".
\<close>

theorem catch_of_flagged_player_fails_counterexample:
  "timers (forgetful [mkCard ''green'' ''3'' ''c4'', mkCard ''yellow'' ''7'' ''y7'',
                      mkCard ''yellow'' ''8'' ''y8'']) 3 = Some 0 \<and>
   map_option (map oid \<circ> players)
       (rooms (forgetful [mkCard ''green'' ''3'' ''c4'', mkCard ''yellow'' ''7'' ''y7'',
                          mkCard ''yellow'' ''8'' ''y8'']) ''ROOM01'') = Some [0, 1] \<and>
   map_option (map canBeCaught \<circ> players)
       (rooms (forgetful [mkCard ''green'' ''3'' ''c4'', mkCard ''yellow'' ''7'' ''y7'',
                          mkCard ''yellow'' ''8'' ''y8'']) ''ROOM01'') = Some [True, False] \<and>
   map_option (map catchTimeout \<circ> players)
       (rooms (forgetful [mkCard ''green'' ''3'' ''c4'', mkCard ''yellow'' ''7'' ''y7'',
                          mkCard ''yellow'' ''8'' ''y8'']) ''ROOM01'') = Some [Some 3, None] \<and>
   catchUno (forgetful [mkCard ''green'' ''3'' ''c4'', mkCard ''yellow'' ''7'' ''y7'',
                        mkCard ''yellow'' ''8'' ''y8'']) ''b'' ''a'' =
     Inr ([(ToSocket ''b'', ErrorEv TooLate)],
          forgetful [mkCard ''green'' ''3'' ''c4'', mkCard ''yellow'' ''7'' ''y7'',
                     mkCard ''yellow'' ''8'' ''y8''])"
  by (simp add: catchUno_def forgetful_def room_defs)

section \<open>Flag and timeout\<close>

text \<open>
  Saying UNO and the timeout callback reset the flag together with the handle and
  leave no timeout pending, as the successful catch does.
\<close>

lemma sayUno_resets_both:
  assumes sock: "roomCode s sid = Some rc" and reg: "rooms s rc = Some r"
    and started: "gameStarted r"
    and found: "findIndex (\<lambda>p. pid p = sid) (players r) = int i"
    and few: "length (cards (players r ! i)) \<le> 2"
    and flag: "canBeCaught (players r ! i)"
    and handle: "catchTimeout (players r ! i) = Some h"
  shows "\<exists>evs s' r'. sayUno s sid = (evs, s') \<and> rooms s' rc = Some r' \<and>
           saidUno (players r' ! i) \<and> \<not> canBeCaught (players r' ! i) \<and>
           catchTimeout (players r' ! i) = None \<and> timers s' h = None"
proof -
  from findIndex_cases [of "\<lambda>p. pid p = sid" "players r"] found
  have i: "i < length (players r)" by auto
  with sock reg started found few flag handle show ?thesis
    by (simp add: sayUno_def Let_def)
qed

lemma timeoutCallback_oid: "oid (timeoutCallback obj p) = oid p"
  by (simp add: timeoutCallback_def)

lemma timeoutCallback_resets:
  "oid p = obj \<Longrightarrow>
     \<not> canBeCaught (timeoutCallback obj p) \<and> catchTimeout (timeoutCallback obj p) = None"
  by (simp add: timeoutCallback_def)

lemma fireTimeout_resets_both:
  assumes pending: "timers s h = Some obj" and reg: "rooms s rc = Some r"
  shows "timers (fireTimeout s h) h = None \<and>
         rooms (fireTimeout s h) rc = Some (r\<lparr>players := map (timeoutCallback obj) (players r)\<rparr>) \<and>
         map oid (map (timeoutCallback obj) (players r)) = map oid (players r) \<and>
         (\<forall>p \<in> set (map (timeoutCallback obj) (players r)). oid p = obj \<longrightarrow>
               \<not> canBeCaught p \<and> catchTimeout p = None)"
proof (intro conjI)
  show "timers (fireTimeout s h) h = None"
    using pending by (simp add: fireTimeout_def)
  show "rooms (fireTimeout s h) rc = Some (r\<lparr>players := map (timeoutCallback obj) (players r)\<rparr>)"
    using pending reg by (simp add: fireTimeout_def)
  show "map oid (map (timeoutCallback obj) (players r)) = map oid (players r)"
    by (simp add: timeoutCallback_oid)
  show "\<forall>p \<in> set (map (timeoutCallback obj) (players r)). oid p = obj \<longrightarrow>
               \<not> canBeCaught p \<and> catchTimeout p = None"
  proof
    fix p assume "p \<in> set (map (timeoutCallback obj) (players r))"
    then obtain q where q: "p = timeoutCallback obj q" by auto
    show "oid p = obj \<longrightarrow> \<not> canBeCaught p \<and> catchTimeout p = None"
      using q timeoutCallback_resets [of q obj] by (simp add: timeoutCallback_oid)
  qed
qed

text \<open>
  C3 fails on the code.  In \<open>endgame\<close> player \<open>b\<close> can be caught and timeout 3 is
  pending.  The winning play of \<open>a\<close> clears the timeout and the handle but not the
  flag: \<open>b\<close> keeps \<open>canBeCaught\<close> with no timeout left.  And when the flagged \<open>a\<close>
  of \<open>forgetful\<close> disconnects, the player is gone from the room while timeout 3, for
  the object 0 of \<open>a\<close>, is still pending.
\<close>

theorem flag_and_timeout_diverge:
  "timers endgame 3 = Some 1 \<and>
   map_option (map oid \<circ> players) (rooms endgame ''ROOM01'') = Some [0, 1] \<and>
   map_option (map canBeCaught \<circ> players) (rooms endgame ''ROOM01'') = Some [False, True] \<and>
   map_option (map canBeCaught \<circ> players)
       (roomAfter (playCard endgame ''a'' ''c1'' None) ''ROOM01'') = Some [False, True] \<and>
   map_option (map catchTimeout \<circ> players)
       (roomAfter (playCard endgame ''a'' ''c1'' None) ''ROOM01'') = Some [None, None] \<and>
   timerAfter (playCard endgame ''a'' ''c1'' None) 3 = Some None \<and>
   timers (forgetful [mkCard ''green'' ''3'' ''c4'']) 3 = Some 0 \<and>
   map_option (map oid \<circ> players)
       (rooms (snd (disconnect (forgetful [mkCard ''green'' ''3'' ''c4'']) ''a'')) ''ROOM01'')
     = Some [1] \<and>
   timers (snd (disconnect (forgetful [mkCard ''green'' ''3'' ''c4'']) ''a'')) 3 = Some 0"
proof -
  have "\<exists>evs s' r'. playCard endgame ''a'' ''c1'' None = Inr (evs, s') \<and>
          rooms s' ''ROOM01'' = Some r' \<and>
          map canBeCaught (players r') = [False, True] \<and>
          map catchTimeout (players r') = [None, None] \<and> timers s' 3 = None"
    by (simp add: play_defs endgame_def room_defs)
  moreover have "timers endgame 3 = Some 1 \<and>
      map_option (map oid \<circ> players) (rooms endgame ''ROOM01'') = Some [0, 1] \<and>
      map_option (map canBeCaught \<circ> players) (rooms endgame ''ROOM01'') = Some [False, True]"
    by (simp add: endgame_def room_defs)
  moreover
  have "\<exists>evs s' r'. disconnect (forgetful [mkCard ''green'' ''3'' ''c4'']) ''a'' = (evs, s') \<and>
          rooms s' ''ROOM01'' = Some r' \<and> map oid (players r') = [1] \<and>
          timers s' 3 = Some 0"
    by (simp add: disconnect_def splice1_def forgetful_def room_defs)
  moreover have "timers (forgetful [mkCard ''green'' ''3'' ''c4'']) 3 = Some 0"
    by (simp add: forgetful_def room_defs)
  ultimately show ?thesis
    by (auto simp: after_defs)
qed

section \<open>Leaving a started room\<close>

text \<open>
  C5, as the code has it.  When a player leaves a started room and somebody stays,
  the player is removed from the array and the current index is set to 0 if it is
  now beyond the array and is left as it is otherwise, also when the removed player
  sat before it; an index that was not negative indexes a remaining player afterwards.
\<close>

theorem removal_recomputes_index:
  assumes sock: "roomCode s sid = Some rc" and code: "rc \<noteq> []"
    and reg: "rooms s rc = Some r" and started: "gameStarted r"
    and found: "findIndex (\<lambda>p. pid p = sid) (players r) = int i"
    and others: "length (players r) \<noteq> 1"
  shows "\<exists>evs s' r'. disconnect s sid = (evs, s') \<and> rooms s' rc = Some r' \<and>
           length (players r') = length (players r) - 1 \<and>
           map pid (players r') = splice1 i (map pid (players r)) \<and>
           currentPlayerIndex r' =
             (if currentPlayerIndex r \<ge> int (length (players r')) then 0
              else currentPlayerIndex r) \<and>
           (0 \<le> currentPlayerIndex r \<longrightarrow>
              0 \<le> currentPlayerIndex r' \<and> currentPlayerIndex r' < int (length (players r')))"
proof -
  from findIndex_cases [of "\<lambda>p. pid p = sid" "players r"] found
  have i: "i < length (players r)" by auto
  let ?ps = "splice1 i (players r)"
  from i others have n: "length ?ps = length (players r) - 1" and pos: "length ?ps \<noteq> 0"
    by (auto simp: splice1_def)
  have mp: "map pid ?ps = splice1 i (map pid (players r))"
    by (simp add: splice1_def take_map drop_map)
  let ?r1 = "r\<lparr>players := ?ps\<rparr>"
  let ?r2 = "(if isHost (players r ! i) \<and> length (players ?r1) > 0
              then ?r1\<lparr>players := (players ?r1)[0 := (players ?r1 ! 0)\<lparr>isHost := True\<rparr>]\<rparr>
              else ?r1)"
  let ?r3 = "(if currentPlayerIndex ?r2 \<ge> int (length (players ?r2))
               then ?r2\<lparr>currentPlayerIndex := 0\<rparr> else ?r2)"
  let ?r4 = "(if length (players ?r3) < 2 then ?r3\<lparr>gameStarted := False\<rparr> else ?r3)"
  have r2: "length (players ?r2) = length ?ps" "map pid (players ?r2) = map pid ?ps"
    "currentPlayerIndex ?r2 = currentPlayerIndex r" "gameStarted ?r2"
    using pos started by (simp_all add: map_update list_update_same_conv)
  have r4: "length (players ?r4) = length ?ps" "map pid (players ?r4) = map pid ?ps"
    "currentPlayerIndex ?r4 =
       (if currentPlayerIndex r \<ge> int (length ?ps) then 0 else currentPlayerIndex r)"
    using r2 by simp_all
  have run: "\<exists>evs. disconnect s sid = (evs, s\<lparr>rooms := (rooms s)(rc \<mapsto> ?r4)\<rparr>)"
    using sock code reg found pos r2
    by (simp add: disconnect_def Let_def)
  then obtain evs where d: "disconnect s sid = (evs, s\<lparr>rooms := (rooms s)(rc \<mapsto> ?r4)\<rparr>)" ..
  have rng: "0 \<le> currentPlayerIndex r \<longrightarrow>
              0 \<le> currentPlayerIndex ?r4 \<and> currentPlayerIndex ?r4 < int (length (players ?r4))"
    using r4 pos by auto
  show ?thesis
    apply (rule exI [of _ evs])
    apply (rule exI [of _ "s\<lparr>rooms := (rooms s)(rc \<mapsto> ?r4)\<rparr>"])
    apply (rule exI [of _ ?r4])
    using d r4 n mp rng by simp
qed

text \<open>In \<open>forgetful\<close> it is the turn of \<open>b\<close> at index 1; \<open>b\<close> leaves and the index is 0.\<close>

theorem removal_recomputes_index_witness:
  "map_option (map pid \<circ> players) (rooms (snd (disconnect (forgetful []) ''b'')) ''ROOM01'')
     = Some [''a''] \<and>
   map_option currentPlayerIndex (rooms (forgetful []) ''ROOM01'') = Some 1 \<and>
   map_option currentPlayerIndex (rooms (snd (disconnect (forgetful []) ''b'')) ''ROOM01'')
     = Some 0"
proof -
  have sock: "roomCode (forgetful []) ''b'' = Some ''ROOM01''" and code: "''ROOM01'' \<noteq> []"
    by (simp_all add: forgetful_def room_defs)
  have "\<exists>r. rooms (forgetful []) ''ROOM01'' = Some r \<and> gameStarted r \<and>
          findIndex (\<lambda>p. pid p = ''b'') (players r) = int 1 \<and> length (players r) \<noteq> 1 \<and>
          map pid (players r) = [''a'', ''b''] \<and> currentPlayerIndex r = 1"
    by (simp add: forgetful_def room_defs)
  then obtain r where reg: "rooms (forgetful []) ''ROOM01'' = Some r" and started: "gameStarted r"
    and found: "findIndex (\<lambda>p. pid p = ''b'') (players r) = int 1"
    and others: "length (players r) \<noteq> 1"
    and ps: "map pid (players r) = [''a'', ''b'']" and cur: "currentPlayerIndex r = 1"
    by auto
  from removal_recomputes_index [OF sock code reg started found others] reg ps cur
  show ?thesis by (auto simp: splice1_def)
qed

text \<open>
  C5 as stated fails.  In \<open>quartet\<close> it is the turn of \<open>c\<close> at index 2; \<open>a\<close>, at
  index 0, leaves.  The index is still 2 afterwards, not 1: it indexes \<open>d\<close> now.
\<close>

theorem removal_keeps_index_counterexample:
  "map_option (map pid \<circ> players) (rooms quartet ''ROOM01'') = Some [''a'', ''b'', ''c'', ''d''] \<and>
   map_option currentPlayerIndex (rooms quartet ''ROOM01'') = Some 2 \<and>
   map_option gameStarted (rooms (snd (disconnect quartet ''a'')) ''ROOM01'') = Some True \<and>
   map_option (map pid \<circ> players) (rooms (snd (disconnect quartet ''a'')) ''ROOM01'')
     = Some [''b'', ''c'', ''d''] \<and>
   map_option currentPlayerIndex (rooms (snd (disconnect quartet ''a'')) ''ROOM01'') = Some 2"
proof -
  have "\<exists>evs s' r'. disconnect quartet ''a'' = (evs, s') \<and>
          rooms s' ''ROOM01'' = Some r' \<and> gameStarted r' \<and>
          map pid (players r') = [''b'', ''c'', ''d''] \<and> currentPlayerIndex r' = 2"
    by (simp add: disconnect_def splice1_def quartet_def room_defs)
  moreover
  have "map_option (map pid \<circ> players) (rooms quartet ''ROOM01'') = Some [''a'', ''b'', ''c'', ''d''] \<and>
      map_option currentPlayerIndex (rooms quartet ''ROOM01'') = Some 2"
    by (simp add: quartet_def room_defs)
  ultimately show ?thesis
    by auto
qed

section \<open>Creating a room\<close>

text \<open>
  C8, as the code has it.  \<open>createRoom\<close> generates a code of six characters of
  \<open>chars\<close> and stores the new room under it without looking into the registry: the
  room is not started, has no winner, and its only player is the creator, who is
  host; a room already stored under that code is replaced.
\<close>

theorem createRoom_registers_generated_code:
  "(case createRoom s sid playerName of
      (evs, s') \<Rightarrow>
        (let rc = fst (generateRoomCode (random s));
             r = \<lparr>code = rc, players = [newPlayer (nextOid s) sid playerName True],
                  deck = [], discardPile = [], currentPlayerIndex = 0, direction = 1,
                  chosenColor = None, gameStarted = False, winner = None\<rparr>
         in length rc = 6 \<and> set rc \<subseteq> set chars \<and>
            evs = [(ToSocket sid, RoomCreated rc), (ToRoom rc, PlayerList)] \<and>
            rooms s' = (rooms s)(rc \<mapsto> r) \<and>
            roomCode s' = (roomCode s)(sid \<mapsto> rc) \<and>
            isHost (players r ! 0) \<and> pid (players r ! 0) = sid))"
proof -
  have "length (fst (generateRoomCode (random s))) = 6"
    "set (fst (generateRoomCode (random s))) \<subseteq> set chars"
    using set_codeLoop [of 6 "[]" "random s"] length_codeLoop [of 6 "[]" "random s"]
    by (simp_all add: generateRoomCode_def)
  then show ?thesis
    by (simp add: createRoom_def newPlayer_def Let_def split: prod.splits)
qed

text \<open>
  C8 as stated fails.  The registry of \<open>taken\<close> holds the room of \<open>a\<close> and \<open>b\<close> under
  \<open>AAAAAA\<close>; with the random numbers all 0 the code generated for \<open>z\<close> is \<open>AAAAAA\<close>
  again, and the room of \<open>a\<close> and \<open>b\<close> is replaced by the room of \<open>z\<close>.
\<close>

theorem room_code_collision_counterexample:
  "map_option (map pid \<circ> players) (rooms taken ''AAAAAA'') = Some [''a'', ''b''] \<and>
   fst (createRoom taken ''z'' ''zed'') =
     [(ToSocket ''z'', RoomCreated ''AAAAAA''), (ToRoom ''AAAAAA'', PlayerList)] \<and>
   map_option (map pid \<circ> players) (rooms (snd (createRoom taken ''z'' ''zed'')) ''AAAAAA'')
     = Some [''z'']"
  by (simp add: createRoom_def all_zero_code taken_def room_defs)

end
